theory Spec2Isabelle
  imports Main
begin

section \<open>Strings\<close>

text \<open>
  Python \<^verbatim>\<open>str\<close> values are modelled as \<^typ>\<open>string\<close>; a \<^typ>\<open>char\<close> stands for a
  code point below 256. \<^verbatim>\<open>str.split()\<close> without a separator splits at runs of
  whitespace and drops empty words. Below 256 the whitespace code points of Python are
  9 to 13, 28 to 32, 133 and 160.
\<close>

definition py_isspace :: "char \<Rightarrow> bool" where
  "py_isspace c =
     (let n = (of_char c :: nat)
      in (9 \<le> n \<and> n \<le> 13) \<or> (28 \<le> n \<and> n \<le> 32) \<or> n = 133 \<or> n = 160)"

fun split_words :: "string \<Rightarrow> string \<Rightarrow> string list" where
  "split_words cur [] = (if cur = [] then [] else [cur])"
| "split_words cur (c # cs) =
     (if py_isspace c
      then (if cur = [] then split_words [] cs else cur # split_words [] cs)
      else split_words (cur @ [c]) cs)"

definition py_split :: "string \<Rightarrow> string list" where
  "py_split s = split_words [] s"

fun py_join :: "string \<Rightarrow> string list \<Rightarrow> string" where
  "py_join sep [] = []"
| "py_join sep [x] = x"
| "py_join sep (x # y # ys) = x @ sep @ py_join sep (y # ys)"

text \<open>\<^verbatim>\<open>'{}'.format(n)\<close> for an integer: its decimal numeral, with a minus sign below zero.\<close>

fun str_nat :: "nat \<Rightarrow> string" where
  "str_nat n =
     (if n < 10 then [''0123456789'' ! n]
      else str_nat (n div 10) @ [''0123456789'' ! (n mod 10)])"

definition str_int :: "int \<Rightarrow> string" where
  "str_int i = (if i < 0 then ''-'' @ str_nat (nat (- i)) else str_nat (nat i))"

section \<open>Ordered dictionaries\<close>

text \<open>
  A \<^verbatim>\<open>collections.OrderedDict\<close> is an association list in insertion order.
  \<^verbatim>\<open>d[k] = v\<close> replaces the value of a key that is present, where it stands, and appends
  a new key at the end.
\<close>

type_synonym ('k, 'v) odict = "('k \<times> 'v) list"

fun od_set :: "('k, 'v) odict \<Rightarrow> 'k \<Rightarrow> 'v \<Rightarrow> ('k, 'v) odict" where
  "od_set [] k v = [(k, v)]"
| "od_set ((k', v') # d) k v =
     (if k' = k then (k', v) # d else (k', v') # od_set d k v)"

section \<open>The remote services\<close>

type_synonym uid = string

datatype error = ExternalError string

record publication =
  pub_url :: string
  pub_title :: string
  pub_journal :: string
  pub_authors :: string

record esearch_request =
  req_db :: string
  req_sort :: string
  req_retmode :: string
  req_retmax :: int
  req_term :: string
  req_reldate :: int
  req_datetype :: string

text \<open>
  The calls into \<^verbatim>\<open>Bio.Entrez\<close> and \<^verbatim>\<open>pubmed_lookup\<close> are parameters: each takes the
  state of the outside world and returns either the exception it raises or its value,
  and the next state of the world. \<^typ>\<open>'l\<close> is the type of \<^verbatim>\<open>PubMedLookup\<close> objects.
  The fields of a \<^typ>\<open>publication\<close> hold the text that \<^verbatim>\<open>format\<close> renders for the
  attribute.
\<close>

record ('w, 'l) remote =
  Entrez_set_email :: "string \<Rightarrow> 'w \<Rightarrow> 'w"
  Entrez_esearch :: "esearch_request \<Rightarrow> 'w \<Rightarrow> (error + uid list) \<times> 'w"
  PubMedLookup_new :: "uid \<Rightarrow> string \<Rightarrow> 'w \<Rightarrow> (error + 'l) \<times> 'w"
  Publication_new :: "'l \<Rightarrow> 'w \<Rightarrow> (error + publication) \<times> 'w"

text \<open>Every external call is recorded, with its arguments and its outcome.\<close>

datatype 'l event =
    SetEmail string
  | EsearchCall esearch_request "error + uid list"
  | PubMedLookupCall uid string "error + 'l"
  | PublicationCall 'l "error + publication"

record ('w, 'l) state =
  world :: 'w
  trace :: "'l event list"

type_synonym ('w, 'l, 'a) action = "('w, 'l) state \<Rightarrow> (error + 'a) \<times> ('w, 'l) state"

definition set_email :: "('w, 'l) remote \<Rightarrow> string \<Rightarrow> ('w, 'l, unit) action" where
  "set_email R addr s =
     (Inr (), \<lparr>world = Entrez_set_email R addr (world s), trace = trace s @ [SetEmail addr]\<rparr>)"

definition PubMedLookup :: "('w, 'l) remote \<Rightarrow> uid \<Rightarrow> string \<Rightarrow> ('w, 'l, 'l) action" where
  "PubMedLookup R ID email s =
     (case PubMedLookup_new R ID email (world s) of
        (r, w) \<Rightarrow> (r, \<lparr>world = w, trace = trace s @ [PubMedLookupCall ID email r]\<rparr>))"

definition Publication :: "('w, 'l) remote \<Rightarrow> 'l \<Rightarrow> ('w, 'l, publication) action" where
  "Publication R lookup s =
     (case Publication_new R lookup (world s) of
        (r, w) \<Rightarrow> (r, \<lparr>world = w, trace = trace s @ [PublicationCall lookup r]\<rparr>))"

section \<open>entrezUtils: searching\<close>

definition entrezSearch ::
  "('w, 'l) remote \<Rightarrow> string \<Rightarrow> int \<Rightarrow> string \<Rightarrow> string \<Rightarrow> string \<Rightarrow> int \<Rightarrow> string
     \<Rightarrow> ('w, 'l, uid list) action" where
  "entrezSearch R term reldate db sort' retmode retmax datetype s =
     (let req = \<lparr>req_db = db, req_sort = sort', req_retmode = retmode, req_retmax = retmax,
                 req_term = term, req_reldate = reldate, req_datetype = datetype\<rparr>
      in case Entrez_esearch R req (world s) of
           (r, w) \<Rightarrow> (r, \<lparr>world = w, trace = trace s @ [EsearchCall req r]\<rparr>))"

fun keywords_loop ::
  "('w, 'l) remote \<Rightarrow> string list \<Rightarrow> int \<Rightarrow> string \<Rightarrow> string \<Rightarrow> int \<Rightarrow> string
     \<Rightarrow> (string, uid list) odict \<Rightarrow> ('w, 'l, (string, uid list) odict) action" where
  "keywords_loop R [] reldate database sort_type retmax datetype results_by_term s =
     (Inr results_by_term, s)"
| "keywords_loop R (term # rest) reldate database sort_type retmax datetype results_by_term s =
     (let formatted_term = py_join ''+'' (py_split term) @ ''[Title/Abstract]''
      in case entrezSearch R formatted_term reldate database sort_type ''xml'' retmax datetype s of
           (Inl e, s') \<Rightarrow> (Inl e, s')
         | (Inr ids, s') \<Rightarrow>
             keywords_loop R rest reldate database sort_type retmax datetype
               (od_set results_by_term term ids) s')"

definition search_by_keywords ::
  "('w, 'l) remote \<Rightarrow> string list \<Rightarrow> int \<Rightarrow> string \<Rightarrow> string \<Rightarrow> int \<Rightarrow> string
     \<Rightarrow> ('w, 'l, (string, uid list) odict) action" where
  "search_by_keywords R keywords reldate database sort_type retmax datetype =
     keywords_loop R keywords reldate database sort_type retmax datetype []"

fun authors_loop ::
  "('w, 'l) remote \<Rightarrow> string list \<Rightarrow> int \<Rightarrow> string \<Rightarrow> string \<Rightarrow> int \<Rightarrow> string
     \<Rightarrow> (string, uid list) odict \<Rightarrow> ('w, 'l, (string, uid list) odict) action" where
  "authors_loop R [] reldate database sort_type retmax datetype results_by_term s =
     (Inr results_by_term, s)"
| "authors_loop R (term # rest) reldate database sort_type retmax datetype results_by_term s =
     (let formatted_term = term @ ''[Author]''
      in case entrezSearch R formatted_term reldate database sort_type ''xml'' retmax datetype s of
           (Inl e, s') \<Rightarrow> (Inl e, s')
         | (Inr ids, s') \<Rightarrow>
             authors_loop R rest reldate database sort_type retmax datetype
               (od_set results_by_term term ids) s')"

definition search_by_authors ::
  "('w, 'l) remote \<Rightarrow> string list \<Rightarrow> int \<Rightarrow> string \<Rightarrow> string \<Rightarrow> int \<Rightarrow> string
     \<Rightarrow> ('w, 'l, (string, uid list) odict) action" where
  "search_by_authors R authors reldate database sort_type retmax datetype =
     authors_loop R authors reldate database sort_type retmax datetype []"

fun journal_topic_loop ::
  "('w, 'l) remote \<Rightarrow> (string, string list) odict \<Rightarrow> int \<Rightarrow> string \<Rightarrow> string \<Rightarrow> int \<Rightarrow> string
     \<Rightarrow> (string, uid list) odict \<Rightarrow> ('w, 'l, (string, uid list) odict) action" where
  "journal_topic_loop R [] reldate database sort_type retmax datetype results_by_term s =
     (Inr results_by_term, s)"
| "journal_topic_loop R ((journal, topic_list) # rest) reldate database sort_type retmax datetype
      results_by_term s =
     (let formatted_term = journal @ ''[Journal] AND ('' @ py_join '' OR '' topic_list @ '')''
      in case entrezSearch R formatted_term reldate database sort_type ''xml'' retmax datetype s of
           (Inl e, s') \<Rightarrow> (Inl e, s')
         | (Inr ids, s') \<Rightarrow>
             journal_topic_loop R rest reldate database sort_type retmax datetype
               (od_set results_by_term formatted_term ids) s')"

definition search_by_journal_and_topic ::
  "('w, 'l) remote \<Rightarrow> (string, string list) odict \<Rightarrow> int \<Rightarrow> string \<Rightarrow> string \<Rightarrow> int \<Rightarrow> string
     \<Rightarrow> ('w, 'l, (string, uid list) odict) action" where
  "search_by_journal_and_topic R journal_topic_dict reldate database sort_type retmax datetype =
     journal_topic_loop R journal_topic_dict reldate database sort_type retmax datetype []"

section \<open>entrezUtils: fetching\<close>

text \<open>
  The \<^verbatim>\<open>PubMedLookup\<close> object is built before the \<^verbatim>\<open>try\<close>: an exception of its
  constructor leaves the function. Only \<^verbatim>\<open>Publication(lookup)\<close> is inside the
  \<^verbatim>\<open>try\<close>, whose bare \<^verbatim>\<open>except\<close> passes on to the next identifier.
\<close>

fun fetch_loop ::
  "('w, 'l) remote \<Rightarrow> uid list \<Rightarrow> string \<Rightarrow> publication list
     \<Rightarrow> ('w, 'l, publication list) action" where
  "fetch_loop R [] entrez_email result_list s = (Inr result_list, s)"
| "fetch_loop R (ID # rest) entrez_email result_list s =
     (case PubMedLookup R ID entrez_email s of
        (Inl e, s1) \<Rightarrow> (Inl e, s1)
      | (Inr lookup, s1) \<Rightarrow>
          (case Publication R lookup s1 of
             (Inl e, s2) \<Rightarrow> fetch_loop R rest entrez_email result_list s2
           | (Inr pub, s2) \<Rightarrow> fetch_loop R rest entrez_email (result_list @ [pub]) s2))"

definition fetch_pubs_from_ID_list ::
  "('w, 'l) remote \<Rightarrow> uid list \<Rightarrow> string \<Rightarrow> ('w, 'l, publication list) action" where
  "fetch_pubs_from_ID_list R ID_list entrez_email = fetch_loop R ID_list entrez_email []"

section \<open>pub_scraper: aggregation\<close>

fun build_loop ::
  "('w, 'l) remote \<Rightarrow> (string, uid list) odict \<Rightarrow> string \<Rightarrow> (string, publication list) odict
     \<Rightarrow> ('w, 'l, (string, publication list) odict) action" where
  "build_loop R [] entrez_email data_dict s = (Inr data_dict, s)"
| "build_loop R ((key, UID_list) # rest) entrez_email data_dict s =
     (case fetch_pubs_from_ID_list R UID_list entrez_email s of
        (Inl e, s') \<Rightarrow> (Inl e, s')
      | (Inr pubs, s') \<Rightarrow> build_loop R rest entrez_email (od_set data_dict key pubs) s')"

definition build_result_dict ::
  "('w, 'l) remote \<Rightarrow> (string, uid list) odict \<Rightarrow> string
     \<Rightarrow> ('w, 'l, (string, publication list) odict) action" where
  "build_result_dict R search_dict entrez_email = build_loop R search_dict entrez_email []"

type_synonym all_results = "(string, (string, publication list) odict) odict"

text \<open>The two nested loops of \<^verbatim>\<open>main\<close> that add up \<^verbatim>\<open>total_hits\<close>.\<close>

fun hits_terms :: "int \<Rightarrow> (string, publication list) odict \<Rightarrow> int" where
  "hits_terms total_hits [] = total_hits"
| "hits_terms total_hits ((term, pub_list) # rest) =
     hits_terms (total_hits + int (length pub_list)) rest"

fun hits_groups :: "int \<Rightarrow> all_results \<Rightarrow> int" where
  "hits_groups total_hits [] = total_hits"
| "hits_groups total_hits ((grp, result_dict) # rest) =
     hits_groups (hits_terms total_hits result_dict) rest"

definition count_total_hits :: "all_results \<Rightarrow> int" where
  "count_total_hits all_results_dict = hits_groups 0 all_results_dict"

section \<open>pub_scraper: the report\<close>

definition html_header :: string where
  "html_header =
     ''    <html>\<newline>    <body>\<newline>    <h1><b>Pub Scraper Report</b></h1>\<newline>    <br/>\<newline>    ''"

definition html_tail :: string where
  "html_tail = ''    </body>\<newline>    </html>\<newline>    ''"

definition section_heading :: "string \<Rightarrow> string" where
  "section_heading sec = ''<h2 style=\"color:red;\">'' @ sec @ ''</h2>\<newline>''"

definition term_heading :: "string \<Rightarrow> string" where
  "term_heading term = ''<h4>'' @ term @ ''</h4>\<newline>''"

definition no_results_notice :: "string \<Rightarrow> int \<Rightarrow> string" where
  "no_results_notice term pub_days_ago =
     ''<p>No results for '' @ [CHR 0x27] @ term @ [CHR 0x27] @ '' in the last ''
       @ str_int pub_days_ago @ '' days</p>\<newline>''"

definition title_line :: "publication \<Rightarrow> string" where
  "title_line pub =
     ''<p><a href=\"'' @ pub_url pub @ ''\"> <b>'' @ pub_title pub @ ''</b> </a></p>\<newline>''"

definition journal_line :: "publication \<Rightarrow> string" where
  "journal_line pub = ''<p><i>'' @ pub_journal pub @ ''</i></p>\<newline>''"

definition authors_line :: "publication \<Rightarrow> string" where
  "authors_line pub = ''<p>'' @ pub_authors pub @ ''</p>\<newline>''"

fun pubs_loop :: "string list \<Rightarrow> publication list \<Rightarrow> string list" where
  "pubs_loop report_subsection [] = report_subsection"
| "pubs_loop report_subsection (pub # rest) =
     pubs_loop (report_subsection @ [title_line pub] @ [journal_line pub] @ [authors_line pub]) rest"

fun terms_loop :: "string list \<Rightarrow> (string, publication list) odict \<Rightarrow> int \<Rightarrow> string list" where
  "terms_loop report_subsection [] pub_days_ago = report_subsection"
| "terms_loop report_subsection ((term, pub_list) # rest) pub_days_ago =
     (let report_subsection1 = report_subsection @ [term_heading term]
      in if length pub_list < 1
         then terms_loop (report_subsection1 @ [no_results_notice term pub_days_ago]) rest pub_days_ago
         else terms_loop (pubs_loop report_subsection1 pub_list) rest pub_days_ago)"

fun sections_loop :: "string list \<Rightarrow> all_results \<Rightarrow> int \<Rightarrow> string list" where
  "sections_loop report_sections [] pub_days_ago = report_sections"
| "sections_loop report_sections ((sec, result_dict) # rest) pub_days_ago =
     sections_loop
       (report_sections @ [concat (terms_loop [section_heading sec] result_dict pub_days_ago)])
       rest pub_days_ago"

definition construct_email_body :: "all_results \<Rightarrow> int \<Rightarrow> string" where
  "construct_email_body all_results_dict pub_days_ago =
     (let report_sections = sections_loop [] all_results_dict pub_days_ago;
          html_body = py_join ''<br/>'' report_sections
      in py_join ''\<newline>'' [html_header, html_body, html_tail])"

section \<open>pub_scraper: main\<close>

text \<open>
  \<^verbatim>\<open>main\<close> from the point where the settings file has been read and the journal topics
  parsed, up to the message it hands to the mail server. \<^verbatim>\<open>today\<close> is the text of
  \<^verbatim>\<open>date.today().strftime(date_format)\<close>.
\<close>

record settings =
  cfg_entrez_email :: string
  cfg_send_to_emails :: "string list"
  cfg_search_keywords :: "string list"
  cfg_search_authors :: "string list"
  cfg_journal_topic_dict :: "(string, string list) odict"
  cfg_pub_days_ago :: int
  cfg_sender_email :: string

record message =
  msg_subject :: string
  msg_to :: string
  msg_from :: string
  msg_body :: string

record run =
  all_results_dict :: all_results
  total_hits :: int
  message :: message

definition then_do ::
  "('w, 'l, 'a) action \<Rightarrow> ('a \<Rightarrow> ('w, 'l, 'b) action) \<Rightarrow> ('w, 'l, 'b) action" where
  "then_do m f s = (case m s of (Inl e, s') \<Rightarrow> (Inl e, s') | (Inr a, s') \<Rightarrow> f a s')"

definition main :: "('w, 'l) remote \<Rightarrow> settings \<Rightarrow> string \<Rightarrow> ('w, 'l, run) action" where
  "main R cfg today =
     (let database = ''pubmed'';
          sort_type = ''Most Recent'';
          message_subject = ''pub scraper report - '' @ today
      in
      then_do (set_email R (cfg_entrez_email cfg)) (\<lambda>_.
      then_do (search_by_keywords R (cfg_search_keywords cfg) (cfg_pub_days_ago cfg)
                 database sort_type 20 ''edat'') (\<lambda>keyword_results.
      then_do (search_by_authors R (cfg_search_authors cfg) (cfg_pub_days_ago cfg)
                 database sort_type 20 ''edat'') (\<lambda>author_results.
      then_do (search_by_journal_and_topic R (cfg_journal_topic_dict cfg) (cfg_pub_days_ago cfg)
                 database sort_type 20 ''edat'') (\<lambda>journal_topic_results.
      then_do (build_result_dict R keyword_results database) (\<lambda>keyword_publications.
      then_do (build_result_dict R author_results database) (\<lambda>author_publications.
      then_do (build_result_dict R journal_topic_results database) (\<lambda>journal_topic_publications.
        (let all_results = od_set (od_set (od_set []
                 ''Keyword Searches'' keyword_publications)
                 ''Author Searches'' author_publications)
                 ''Journal and Topic Searches'' journal_topic_publications;
             hits = count_total_hits all_results
         in Pair (Inr \<lparr>all_results_dict = all_results,
                       total_hits = hits,
                       message = \<lparr>msg_subject = message_subject @ '' ('' @ str_int hits @ '' hits)'',
                                  msg_to = py_join '','' (cfg_send_to_emails cfg),
                                  msg_from = cfg_sender_email cfg,
                                  msg_body = construct_email_body all_results (cfg_pub_days_ago cfg)\<rparr>\<rparr>))))))))))"

section \<open>Specification-side definitions\<close>

text \<open>
  The request that every search function sends for a formatted term: the retrieval mode
  is always \<^verbatim>\<open>xml\<close>.
\<close>

definition search_request ::
  "string \<Rightarrow> int \<Rightarrow> string \<Rightarrow> string \<Rightarrow> int \<Rightarrow> string \<Rightarrow> esearch_request" where
  "search_request formatted_term reldate database sort_type retmax datetype =
     \<lparr>req_db = database, req_sort = sort_type, req_retmode = ''xml'', req_retmax = retmax,
      req_term = formatted_term, req_reldate = reldate, req_datetype = datetype\<rparr>"

text \<open>
  The three search loops differ in the key and the query of a term only. \<open>search_all\<close>
  is their common shape, over a list of pairs of key and query; \<open>od_of\<close> stores a list
  of bindings in order.
\<close>

fun search_all ::
  "('w, 'l) remote \<Rightarrow> (string \<times> string) list \<Rightarrow> int \<Rightarrow> string \<Rightarrow> string \<Rightarrow> int \<Rightarrow> string
     \<Rightarrow> (string, uid list) odict \<Rightarrow> ('w, 'l, (string, uid list) odict) action" where
  "search_all R [] reldate database sort_type retmax datetype acc s = (Inr acc, s)"
| "search_all R ((key, query) # rest) reldate database sort_type retmax datetype acc s =
     (case entrezSearch R query reldate database sort_type ''xml'' retmax datetype s of
        (Inl e, s') \<Rightarrow> (Inl e, s')
      | (Inr ids, s') \<Rightarrow>
          search_all R rest reldate database sort_type retmax datetype (od_set acc key ids) s')"

definition od_of :: "('k \<times> 'v) list \<Rightarrow> ('k, 'v) odict \<Rightarrow> ('k, 'v) odict" where
  "od_of kvs d = fold (\<lambda>(k, v) d. od_set d k v) kvs d"

text \<open>
  The lookup of the specification, \<^verbatim>\<open>lookup(identifier, credentials) -> Publication | failure\<close>:
  both steps of the code taken as one, failing when either raises. \<open>spec_fetch\<close> is the
  Publication Fetcher as the specification words it: one lookup per identifier, a
  success appended, a failure skipped.
\<close>

definition lookup ::
  "('w, 'l) remote \<Rightarrow> uid \<Rightarrow> string \<Rightarrow> ('w, 'l) state \<Rightarrow> publication option \<times> ('w, 'l) state" where
  "lookup R ID credentials s =
     (case PubMedLookup R ID credentials s of
        (Inl e, s1) \<Rightarrow> (None, s1)
      | (Inr l, s1) \<Rightarrow>
          (case Publication R l s1 of
             (Inl e, s2) \<Rightarrow> (None, s2)
           | (Inr pub, s2) \<Rightarrow> (Some pub, s2)))"


text \<open>The three pieces that the report appends for one publication.\<close>

definition entry_block :: "publication \<Rightarrow> string list" where
  "entry_block pub = [title_line pub, journal_line pub, authors_line pub]"

text \<open>The arguments of the \<^verbatim>\<open>PubMedLookup\<close> calls of a trace, in order.\<close>

fun lookup_calls :: "'l event list \<Rightarrow> (uid \<times> string) list" where
  "lookup_calls [] = []"
| "lookup_calls (PubMedLookupCall ID email r # evs) = (ID, email) # lookup_calls evs"
| "lookup_calls (ev # evs) = lookup_calls evs"

text \<open>
  An action makes its \<^verbatim>\<open>PubMedLookup\<close> calls with the given credentials: from any state, the
  calls it adds to the trace all carry them.
\<close>

definition lookups_with :: "string \<Rightarrow> ('w, 'l, 'a) action \<Rightarrow> bool" where
  "lookups_with credentials m =
     (\<forall>s. \<exists>ids. lookup_calls (trace (snd (m s)))
              = lookup_calls (trace s) @ map (\<lambda>ID. (ID, credentials)) ids)"

section \<open>The layout of the report\<close>

text \<open>The pieces that the report appends for one term: its heading, then the notice or the entries.\<close>

definition term_pieces :: "int \<Rightarrow> string \<times> publication list \<Rightarrow> string list" where
  "term_pieces days tp =
     (case tp of (term, pub_list) \<Rightarrow>
        term_heading term #
          (if pub_list = [] then [no_results_notice term days]
           else concat (map entry_block pub_list)))"

text \<open>
  The layout of the report as the specification describes it: per category a heading,
  per term a heading and then either the notice or one entry per publication. An entry
  is rendered as the linked title, the journal line and the authors line.
\<close>

datatype report_item =
    CategoryHeading string
  | TermHeading string
  | NoResults string
  | Entry publication

fun is_entry :: "report_item \<Rightarrow> bool" where
  "is_entry (Entry pub) = True"
| "is_entry item = False"

fun render_item :: "int \<Rightarrow> report_item \<Rightarrow> string" where
  "render_item days (CategoryHeading category) = ''<h2 style=\"color:red;\">'' @ category @ ''</h2>\<newline>''"
| "render_item days (TermHeading term) = ''<h4>'' @ term @ ''</h4>\<newline>''"
| "render_item days (NoResults term) =
     ''<p>No results for '' @ [CHR 0x27] @ term @ [CHR 0x27] @ '' in the last ''
       @ str_int days @ '' days</p>\<newline>''"
| "render_item days (Entry pub) =
     ''<p><a href=\"'' @ pub_url pub @ ''\"> <b>'' @ pub_title pub @ ''</b> </a></p>\<newline>''
       @ ''<p><i>'' @ pub_journal pub @ ''</i></p>\<newline>''
       @ ''<p>'' @ pub_authors pub @ ''</p>\<newline>''"

definition term_layout :: "string \<times> publication list \<Rightarrow> report_item list" where
  "term_layout tp =
     (case tp of (term, pub_list) \<Rightarrow>
        TermHeading term # (if pub_list = [] then [NoResults term] else map Entry pub_list))"

definition section_layout :: "string \<times> (string, publication list) odict \<Rightarrow> report_item list" where
  "section_layout sec =
     (case sec of (category, result_dict) \<Rightarrow>
        CategoryHeading category # concat (map term_layout result_dict))"

section \<open>Example services\<close>

text \<open>
  A search service that counts its calls and answers the \<open>n\<close>-th call (from 0) with the
  two identifiers \<open>111 + 222 n\<close> and \<open>222 + 222 n\<close>; a lookup whose object is the identifier
  itself; a publication constructor that raises for identifier 222.
\<close>

definition demo_publication :: "uid \<Rightarrow> publication" where
  "demo_publication ID =
     \<lparr>pub_url = ''dx.doi.org/10.1/'' @ ID, pub_title = ''T'' @ ID, pub_journal = ''J1'',
      pub_authors = ''Smith A''\<rparr>"

definition demo_remote :: "(nat, uid) remote" where
  "demo_remote =
     \<lparr>Entrez_set_email = (\<lambda>addr w. w),
      Entrez_esearch = (\<lambda>req w. (Inr [str_nat (111 + 222 * w), str_nat (222 + 222 * w)], Suc w)),
      PubMedLookup_new = (\<lambda>ID email w. (Inr ID, w)),
      Publication_new = (\<lambda>l w.
        (if l = ''222'' then Inl (ExternalError ''IndexError'') else Inr (demo_publication l), w))\<rparr>"



text \<open>A search service that finds nothing.\<close>

definition empty_remote :: "(nat, uid) remote" where
  "empty_remote = demo_remote\<lparr>Entrez_esearch := (\<lambda>req w. (Inr [], Suc w))\<rparr>"

definition init :: "(nat, uid) state" where
  "init = \<lparr>world = 0, trace = []\<rparr>"

definition demo_settings :: settings where
  "demo_settings =
     \<lparr>cfg_entrez_email = ''reader@example.org'',
      cfg_send_to_emails = [''reader@example.org''],
      cfg_search_keywords = [''CRISPR''],
      cfg_search_authors = [],
      cfg_journal_topic_dict = [],
      cfg_pub_days_ago = 7,
      cfg_sender_email = ''scraper@example.org''\<rparr>"

subsection \<open>Example runs\<close>

definition one_search :: "string \<Rightarrow> (nat, uid) state" where
  "one_search query =
     \<lparr>world = 1,
      trace = [EsearchCall (search_request query 7 ''pubmed'' ''Most Recent'' 20 ''edat'')
                 (Inr [''111'', ''222''])]\<rparr>"

definition repeated_search :: "string \<Rightarrow> string \<Rightarrow> (nat, uid) state" where
  "repeated_search query_a query_b =
     \<lparr>world = 3,
      trace = [EsearchCall (search_request query_a 7 ''pubmed'' ''Most Recent'' 20 ''edat'')
                 (Inr [''111'', ''222'']),
               EsearchCall (search_request query_a 7 ''pubmed'' ''Most Recent'' 20 ''edat'')
                 (Inr [''333'', ''444'']),
               EsearchCall (search_request query_b 7 ''pubmed'' ''Most Recent'' 20 ''edat'')
                 (Inr [''555'', ''666''])]\<rparr>"

definition repeated_settings :: settings where
  "repeated_settings = demo_settings\<lparr>cfg_search_keywords := [''a'', ''a'', ''b'']\<rparr>"

definition empty_settings :: settings where
  "empty_settings = demo_settings\<lparr>cfg_search_keywords := []\<rparr>"

definition rich_settings :: settings where
  "rich_settings =
     \<lparr>cfg_entrez_email = ''reader@example.org'',
      cfg_send_to_emails = [''reader@example.org''],
      cfg_search_keywords = [''gene  editing'', ''CRISPR''],
      cfg_search_authors = [''Smith J'', ''Doe A''],
      cfg_journal_topic_dict = [(''Nature'', [''aging'', ''longevity'']), (''Science'', [''CRISPR''])],
      cfg_pub_days_ago = 7,
      cfg_sender_email = ''scraper@example.org''\<rparr>"

definition pair_settings :: settings where
  "pair_settings = demo_settings\<lparr>cfg_search_authors := [''Smith J'']\<rparr>"

definition nature_settings :: settings where
  "nature_settings =
     demo_settings\<lparr>cfg_search_keywords := [],
                    cfg_journal_topic_dict := [(''Nature'', [''aging'', ''longevity''])]\<rparr>"

definition demo_final_state :: "(nat, uid) state" where
  "demo_final_state =
     \<lparr>world = 1,
      trace = [SetEmail ''reader@example.org'',
        EsearchCall (search_request ''CRISPR[Title/Abstract]'' 7 ''pubmed'' ''Most Recent'' 20 ''edat'')
          (Inr [''111'', ''222'']),
        PubMedLookupCall ''111'' ''pubmed'' (Inr ''111''),
        PublicationCall ''111'' (Inr (demo_publication ''111'')),
        PubMedLookupCall ''222'' ''pubmed'' (Inr ''222''),
        PublicationCall ''222'' (Inl (ExternalError ''IndexError''))]\<rparr>"

definition demo_results :: all_results where
  "demo_results =
     [(''Keyword Searches'', [(''CRISPR'', [demo_publication ''111''])]),
      (''Author Searches'', []),
      (''Journal and Topic Searches'', [])]"

definition demo_run :: run where
  "demo_run =
     \<lparr>all_results_dict = demo_results,
      total_hits = 1,
      message = \<lparr>msg_subject = ''pub scraper report - 2017/03/31 (1 hits)'',
                 msg_to = ''reader@example.org'',
                 msg_from = ''scraper@example.org'',
                 msg_body = construct_email_body demo_results 7\<rparr>\<rparr>"

definition empty_results :: all_results where
  "empty_results =
     [(''Keyword Searches'', []), (''Author Searches'', []), (''Journal and Topic Searches'', [])]"

definition empty_run :: run where
  "empty_run =
     \<lparr>all_results_dict = empty_results,
      total_hits = 0,
      message = \<lparr>msg_subject = ''pub scraper report - 2017/03/31 (0 hits)'',
                 msg_to = ''reader@example.org'',
                 msg_from = ''scraper@example.org'',
                 msg_body = construct_email_body empty_results 7\<rparr>\<rparr>"

definition pair_results :: all_results where
  "pair_results =
     [(''Keyword Searches'', [(''CRISPR'', [demo_publication ''111''])]),
      (''Author Searches'', [(''Smith J'', [demo_publication ''333'', demo_publication ''444''])]),
      (''Journal and Topic Searches'', [])]"

definition notice_results :: all_results where
  "notice_results =
     [(''Keyword Searches'', [(''CRISPR'', [])]),
      (''Author Searches'', []),
      (''Journal and Topic Searches'', [])]"

definition nature_results :: all_results where
  "nature_results =
     [(''Keyword Searches'', []),
      (''Author Searches'', []),
      (''Journal and Topic Searches'',
         [(''Nature[Journal] AND (aging OR longevity)'', [demo_publication ''111''])])]"

definition nature_trace :: "uid event list" where
  "nature_trace =
     [SetEmail ''reader@example.org'',
      EsearchCall (search_request ''Nature[Journal] AND (aging OR longevity)''
                     7 ''pubmed'' ''Most Recent'' 20 ''edat'') (Inr [''111'', ''222'']),
      PubMedLookupCall ''111'' ''pubmed'' (Inr ''111''),
      PublicationCall ''111'' (Inr (demo_publication ''111'')),
      PubMedLookupCall ''222'' ''pubmed'' (Inr ''222''),
      PublicationCall ''222'' (Inl (ExternalError ''IndexError''))]"

text \<open>
  The keys of every category of a run, and the body of its message.
\<close>

definition term_keys :: "run \<Rightarrow> (string \<times> string list) list" where
  "term_keys run =
     map (\<lambda>(category, result_dict). (category, map fst result_dict)) (all_results_dict run)"

definition report_body :: "run \<Rightarrow> string" where
  "report_body run = msg_body (message run)"

section \<open>Ordered dictionaries: keys and values after a sequence of stores\<close>

declare str_nat.simps [simp del]

lemma od_set_keys: "map fst (od_set d k v) = (if k \<in> set (map fst d) then map fst d else map fst d @ [k])"
  by (induction d) force+

lemma od_set_map_of: "map_of (od_set d k v) = (map_of d)(k \<mapsto> v)"
  by (induction d) auto

lemma od_set_fresh: "k \<notin> fst ` set d \<Longrightarrow> od_set d k v = d @ [(k, v)]"
  by (induction d) auto

lemma od_of_simps: "od_of [] d = d" "od_of ((k, v) # kvs) d = od_of kvs (od_set d k v)"
  "od_of (kvs @ [(k, v)]) d = od_set (od_of kvs d) k v"
  by (simp_all add: od_of_def)

lemma od_of_keys_empty: "map fst (od_of kvs []) = rev (remdups (rev (map fst kvs)))"
proof (induction kvs rule: rev_induct)
  case Nil
  show ?case by (simp add: od_of_simps)
next
  case (snoc kv kvs)
  obtain k v where kv: "kv = (k, v)" by (cases kv)
  have "set (map fst (od_of kvs [])) = set (map fst kvs)"
    by (simp only: snoc.IH set_rev set_remdups)
  then show ?case
    using snoc.IH by (auto simp add: kv od_of_simps od_set_keys)
qed

lemma od_of_distinct: "distinct (map fst (od_of kvs []))"
  by (simp add: od_of_keys_empty)

lemma od_of_map_of: "map_of (od_of kvs d) = map_of d ++ map_of (rev kvs)"
proof (induction kvs rule: rev_induct)
  case Nil
  show ?case by (simp add: od_of_simps)
next
  case (snoc kv kvs)
  obtain k v where kv: "kv = (k, v)" by (cases kv)
  show ?case
    by (auto simp add: kv od_of_simps od_set_map_of snoc.IH fun_eq_iff map_add_def)
qed

lemma od_of_distinct_id: "distinct (map fst kvs) \<Longrightarrow> od_of kvs [] = kvs"
proof (induction kvs rule: rev_induct)
  case Nil
  show ?case by (simp add: od_of_simps)
next
  case (snoc kv kvs)
  obtain k v where kv: "kv = (k, v)" by (cases kv)
  from snoc.prems have "distinct (map fst kvs)" "k \<notin> fst ` set kvs" by (simp_all add: kv)
  then show ?case by (simp add: kv od_of_simps snoc.IH od_set_fresh)
qed

lemma od_of_last_wins:
  assumes "length vs = length ks" "ks = pre @ k # post" "k \<notin> set post"
  shows "map_of (od_of (zip ks vs) []) k = Some (vs ! length pre)"
proof -
  have len: "length pre < length vs" using assms by simp
  have z: "zip ks vs = zip pre (take (length pre) vs) @ (k, vs ! length pre) # zip post (drop (Suc (length pre)) vs)"
    using assms(1,2) len
    by (metis (no_types) append_take_drop_id length_take min.absorb2 less_imp_le zip_append zip_Cons_Cons Cons_nth_drop_Suc)
  have "k \<notin> fst ` set (zip post (drop (Suc (length pre)) vs))"
    using assms(3) by (auto dest: set_zip_leftD)
  then have "map_of (rev (zip post (drop (Suc (length pre)) vs))) k = None"
    by (simp add: map_of_eq_None_iff)
  then show ?thesis
    by (simp add: od_of_map_of z map_add_def)
qed

lemma od_of_keys_zip:
  "length vs = length ks \<Longrightarrow> map fst (od_of (zip ks vs) []) = rev (remdups (rev ks))"
  by (simp add: od_of_keys_empty)

section \<open>The search loops\<close>

lemma split_words_concat:
  "concat (split_words cur cs) = cur @ filter (\<lambda>c. \<not> py_isspace c) cs"
  by (induction cs arbitrary: cur) simp_all

lemma split_words_words:
  "w \<in> set (split_words cur cs) \<Longrightarrow> \<forall>c\<in>set cur. \<not> py_isspace c \<Longrightarrow>
     w \<noteq> [] \<and> (\<forall>c\<in>set w. \<not> py_isspace c)"
proof (induction cs arbitrary: cur)
  case Nil
  then show ?case by (simp split: if_splits)
next
  case (Cons c cs)
  show ?case
  proof (cases "py_isspace c")
    case True
    then show ?thesis using Cons.prems Cons.IH [of "[]"] by (auto split: if_splits)
  next
    case False
    then show ?thesis using Cons.prems Cons.IH [of "cur @ [c]"] by auto
  qed
qed

lemma keywords_loop_search_all:
  "keywords_loop R kws reldate database sort_type retmax datetype acc s =
     search_all R (map (\<lambda>term. (term, py_join ''+'' (py_split term) @ ''[Title/Abstract]'')) kws)
       reldate database sort_type retmax datetype acc s"
  by (induction kws arbitrary: acc s) (auto split: prod.splits sum.splits)

lemma authors_loop_search_all:
  "authors_loop R as reldate database sort_type retmax datetype acc s =
     search_all R (map (\<lambda>term. (term, term @ ''[Author]'')) as)
       reldate database sort_type retmax datetype acc s"
  by (induction as arbitrary: acc s) (auto split: prod.splits sum.splits)

lemma journal_topic_loop_search_all':
  "journal_topic_loop R jts reldate database sort_type retmax datetype acc s =
     search_all R
       (map (\<lambda>x. (fst x @ ''[Journal] AND ('' @ py_join '' OR '' (snd x) @ '')'',
                   fst x @ ''[Journal] AND ('' @ py_join '' OR '' (snd x) @ '')'')) jts)
       reldate database sort_type retmax datetype acc s"
  by (induction jts arbitrary: acc s) (auto split: prod.splits sum.splits)

lemma entrezSearch_Inr:
  "entrezSearch R q reldate database sort_type ''xml'' retmax datetype s = (Inr ids, s') \<Longrightarrow>
     trace s' = trace s @ [EsearchCall (search_request q reldate database sort_type retmax datetype) (Inr ids)]"
  by (auto simp add: entrezSearch_def search_request_def Let_def split: prod.splits)

lemma search_all_map_Inr:
  "search_all R (map (\<lambda>x. (key x, query x)) xs) reldate database sort_type retmax datetype acc s
      = (Inr res, s') \<Longrightarrow>
   \<exists>ids_lists. length ids_lists = length xs
     \<and> trace s' = trace s @ map (\<lambda>(x, ids).
           EsearchCall (search_request (query x) reldate database sort_type retmax datetype) (Inr ids))
         (zip xs ids_lists)
     \<and> res = od_of (zip (map key xs) ids_lists) acc"
proof (induction xs arbitrary: acc s)
  case Nil
  then show ?case by (simp add: od_of_simps)
next
  case (Cons x xs)
  from Cons.prems obtain ids s1 where
    step: "entrezSearch R (query x) reldate database sort_type ''xml'' retmax datetype s = (Inr ids, s1)"
    and rest: "search_all R (map (\<lambda>x. (key x, query x)) xs) reldate database sort_type retmax datetype
                 (od_set acc (key x) ids) s1 = (Inr res, s')"
    by (auto split: prod.splits sum.splits)
  from Cons.IH [OF rest] obtain ids_lists where
    len: "length ids_lists = length xs"
    and tr: "trace s' = trace s1 @ map (\<lambda>(x, ids).
           EsearchCall (search_request (query x) reldate database sort_type retmax datetype) (Inr ids))
         (zip xs ids_lists)"
    and res: "res = od_of (zip (map key xs) ids_lists) (od_set acc (key x) ids)"
    by blast
  have "length (ids # ids_lists) = length (x # xs)" using len by simp
  moreover have "trace s' = trace s @ map (\<lambda>(x, ids).
           EsearchCall (search_request (query x) reldate database sort_type retmax datetype) (Inr ids))
         (zip (x # xs) (ids # ids_lists))"
    using tr entrezSearch_Inr [OF step] by simp
  moreover have "res = od_of (zip (map key (x # xs)) (ids # ids_lists)) acc"
    using res by (simp add: od_of_simps)
  ultimately show ?case by blast
qed

lemma search_by_keywords_Inr:
  assumes "search_by_keywords R keywords reldate database sort_type retmax datetype s = (Inr results, s')"
  shows "\<exists>ids_lists. length ids_lists = length keywords
     \<and> trace s' = trace s @ map (\<lambda>(term, ids).
           EsearchCall (search_request (py_join ''+'' (py_split term) @ ''[Title/Abstract]'')
                          reldate database sort_type retmax datetype) (Inr ids))
         (zip keywords ids_lists)
     \<and> results = od_of (zip keywords ids_lists) []"
  using search_all_map_Inr [of R "\<lambda>term. term" "\<lambda>term. py_join ''+'' (py_split term) @ ''[Title/Abstract]''"
           "keywords" reldate database sort_type retmax datetype "[]" s results s']
    assms
  by (simp add: search_by_keywords_def keywords_loop_search_all)

lemma search_by_authors_Inr:
  assumes "search_by_authors R authors reldate database sort_type retmax datetype s = (Inr results, s')"
  shows "\<exists>ids_lists. length ids_lists = length authors
     \<and> trace s' = trace s @ map (\<lambda>(term, ids).
           EsearchCall (search_request (term @ ''[Author]'')
                          reldate database sort_type retmax datetype) (Inr ids))
         (zip authors ids_lists)
     \<and> results = od_of (zip authors ids_lists) []"
  using search_all_map_Inr [of R "\<lambda>term. term" "\<lambda>term. term @ ''[Author]''"
           authors reldate database sort_type retmax datetype "[]" s results s']
    assms
  by (simp add: search_by_authors_def authors_loop_search_all)

lemma search_by_journal_and_topic_Inr:
  assumes "search_by_journal_and_topic R jtd reldate database sort_type retmax datetype s = (Inr results, s')"
  shows "\<exists>ids_lists. length ids_lists = length jtd
     \<and> trace s' = trace s @ map (\<lambda>(entry, ids).
           EsearchCall (search_request (fst entry @ ''[Journal] AND ('' @ py_join '' OR '' (snd entry) @ '')'')
                          reldate database sort_type retmax datetype) (Inr ids))
         (zip jtd ids_lists)
     \<and> results = od_of (zip (map (\<lambda>entry.
           fst entry @ ''[Journal] AND ('' @ py_join '' OR '' (snd entry) @ '')'') jtd) ids_lists) []"
  using search_all_map_Inr [of R "\<lambda>x. fst x @ ''[Journal] AND ('' @ py_join '' OR '' (snd x) @ '')''"
       "\<lambda>x. fst x @ ''[Journal] AND ('' @ py_join '' OR '' (snd x) @ '')''"
           jtd reldate database sort_type retmax datetype "[]" s results s']
    assms
  by (simp add: search_by_journal_and_topic_def journal_topic_loop_search_all')

lemma search_keys_distinct_keywords:
  "search_by_keywords R kws reldate database sort_type retmax datetype s = (Inr results, s') \<Longrightarrow>
     map fst results = rev (remdups (rev kws))"
  by (auto dest!: search_by_keywords_Inr simp add: od_of_keys_empty)

lemma search_keys_distinct_authors:
  "search_by_authors R as reldate database sort_type retmax datetype s = (Inr results, s') \<Longrightarrow>
     map fst results = rev (remdups (rev as))"
  by (auto dest!: search_by_authors_Inr simp add: od_of_keys_empty)

lemma search_keys_distinct_journal:
  "search_by_journal_and_topic R jtd reldate database sort_type retmax datetype s = (Inr results, s') \<Longrightarrow>
     map fst results = rev (remdups (rev (map (\<lambda>(journal, topic_list).
           journal @ ''[Journal] AND ('' @ py_join '' OR '' topic_list @ '')'') jtd)))"
  by (auto dest!: search_by_journal_and_topic_Inr simp add: od_of_keys_empty case_prod_unfold)

section \<open>Fetching and aggregation\<close>





lemma build_loop_Inr:
  "build_loop R sd email acc s = (Inr res, s') \<Longrightarrow>
     \<exists>pubs_lists. length pubs_lists = length sd \<and> res = od_of (zip (map fst sd) pubs_lists) acc"
proof (induction sd arbitrary: acc s)
  case Nil
  then show ?case by (simp add: od_of_simps)
next
  case (Cons kv sd)
  obtain key ids where kv: "kv = (key, ids)" by (cases kv)
  from Cons.prems obtain pubs s1 where
    rest: "build_loop R sd email (od_set acc key pubs) s1 = (Inr res, s')"
    by (auto simp add: kv split: prod.splits sum.splits)
  from Cons.IH [OF rest] obtain pubs_lists where
    "length pubs_lists = length sd" "res = od_of (zip (map fst sd) pubs_lists) (od_set acc key pubs)"
    by blast
  then have "length (pubs # pubs_lists) = length (kv # sd)
     \<and> res = od_of (zip (map fst (kv # sd)) (pubs # pubs_lists)) acc"
    by (simp add: kv od_of_simps)
  then show ?case by blast
qed

lemma build_result_dict_keys:
  assumes "build_result_dict R sd email s = (Inr res, s')" "distinct (map fst sd)"
  shows "map fst res = map fst sd"
proof -
  from build_loop_Inr [OF assms(1) [unfolded build_result_dict_def]] obtain pubs_lists where
    "length pubs_lists = length sd" "res = od_of (zip (map fst sd) pubs_lists) []"
    by blast
  then show ?thesis using assms(2) by (simp add: od_of_keys_zip distinct_remdups_id)
qed

lemma build_result_dict_keys':
  assumes "build_result_dict R sd email s = (Inr res, s')" "map fst sd = rev (remdups (rev ks))"
  shows "map fst res = rev (remdups (rev ks))"
  using build_result_dict_keys [OF assms(1)] assms(2) by simp

lemma fetch_loop_trace:
  "\<exists>evs. trace (snd (fetch_loop R ids email acc s)) = trace s @ evs"
proof (induction ids arbitrary: acc s)
  case Nil
  show ?case by simp
next
  case (Cons ID ids)
  obtain r w where new: "PubMedLookup_new R ID email (world s) = (r, w)"
    by (cases "PubMedLookup_new R ID email (world s)")
  define s1 where "s1 = \<lparr>world = w, trace = trace s @ [PubMedLookupCall ID email r]\<rparr>"
  have lk: "PubMedLookup R ID email s = (r, s1)" by (simp add: PubMedLookup_def new s1_def)
  show ?case
  proof (cases r)
    case (Inl e)
    then show ?thesis by (simp add: lk s1_def)
  next
    case (Inr l)
    obtain r2 w2 where pn: "Publication_new R l (world s1) = (r2, w2)"
      by (cases "Publication_new R l (world s1)")
    define s2 where "s2 = \<lparr>world = w2, trace = trace s1 @ [PublicationCall l r2]\<rparr>"
    have pb: "Publication R l s1 = (r2, s2)" by (simp add: Publication_def pn s2_def)
    obtain acc2 where step: "fetch_loop R (ID # ids) email acc s = fetch_loop R ids email acc2 s2"
      by (cases r2) (simp_all add: lk Inr pb)
    from Cons.IH [of acc2 s2] obtain evs where
      "trace (snd (fetch_loop R ids email acc2 s2)) = trace s2 @ evs"
      by blast
    then have "trace (snd (fetch_loop R (ID # ids) email acc s))
                 = trace s @ ([PubMedLookupCall ID email r, PublicationCall l r2] @ evs)"
      unfolding step by (simp add: s2_def s1_def)
    then show ?thesis by blast
  qed
qed

lemma build_loop_trace:
  "\<exists>evs. trace (snd (build_loop R sd email acc s)) = trace s @ evs"
proof (induction sd arbitrary: acc s)
  case Nil
  show ?case by simp
next
  case (Cons kv sd)
  obtain key ids where kv: "kv = (key, ids)" by (cases kv)
  obtain r s1 where f: "fetch_pubs_from_ID_list R ids email s = (r, s1)"
    by (cases "fetch_pubs_from_ID_list R ids email s")
  from fetch_loop_trace [of R ids email "[]" s] obtain evs1 where
    t1: "trace s1 = trace s @ evs1"
    using f by (auto simp add: fetch_pubs_from_ID_list_def)
  show ?case
  proof (cases r)
    case (Inl e)
    then show ?thesis using t1 by (simp add: kv f)
  next
    case (Inr pubs)
    from Cons.IH [of "od_set acc key pubs" s1] obtain evs2 where
      "trace (snd (build_loop R sd email (od_set acc key pubs) s1)) = trace s1 @ evs2"
      by blast
    then have "trace (snd (build_loop R (kv # sd) email acc s)) = trace s @ (evs1 @ evs2)"
      by (simp add: kv f Inr t1)
    then show ?thesis by blast
  qed
qed

lemma build_result_dict_trace:
  "build_result_dict R sd email s = (r, s') \<Longrightarrow> \<exists>evs. trace s' = trace s @ evs"
  using build_loop_trace [of R sd email "[]" s] by (simp add: build_result_dict_def)

lemma then_do_InrE:
  assumes "then_do m f s = (Inr b, s')"
  obtains a s1 where "m s = (Inr a, s1)" and "f a s1 = (Inr b, s')"
  using assms by (auto simp add: then_do_def split: prod.splits sum.splits)

lemma main_InrE:
  assumes "main R cfg today s = (Inr run, s')"
  obtains s0 kr s1 ar s2 jr s3 kp s4 ap s5 jp where
     "set_email R (cfg_entrez_email cfg) s = (Inr (), s0)"
     "search_by_keywords R (cfg_search_keywords cfg) (cfg_pub_days_ago cfg) ''pubmed'' ''Most Recent'' 20 ''edat'' s0 = (Inr kr, s1)"
     "search_by_authors R (cfg_search_authors cfg) (cfg_pub_days_ago cfg) ''pubmed'' ''Most Recent'' 20 ''edat'' s1 = (Inr ar, s2)"
     "search_by_journal_and_topic R (cfg_journal_topic_dict cfg) (cfg_pub_days_ago cfg) ''pubmed'' ''Most Recent'' 20 ''edat'' s2 = (Inr jr, s3)"
     "build_result_dict R kr ''pubmed'' s3 = (Inr kp, s4)"
     "build_result_dict R ar ''pubmed'' s4 = (Inr ap, s5)"
     "build_result_dict R jr ''pubmed'' s5 = (Inr jp, s')"
     "all_results_dict run = [(''Keyword Searches'', kp), (''Author Searches'', ap), (''Journal and Topic Searches'', jp)]"
     "total_hits run = count_total_hits (all_results_dict run)"
     "msg_subject (message run) = ''pub scraper report - '' @ today @ '' ('' @ str_int (total_hits run) @ '' hits)''"
     "msg_body (message run) = construct_email_body (all_results_dict run) (cfg_pub_days_ago cfg)"
  using assms unfolding main_def Let_def
  by (elim then_do_InrE) auto

section \<open>The credentials of the lookups\<close>

lemma lookup_calls_append: "lookup_calls (xs @ ys) = lookup_calls xs @ lookup_calls ys"
  by (induction xs rule: lookup_calls.induct) simp_all

lemma lookups_withI:
  "(\<And>s. \<exists>ids. lookup_calls (trace (snd (m s)))
              = lookup_calls (trace s) @ map (\<lambda>ID. (ID, credentials)) ids) \<Longrightarrow>
   lookups_with credentials m"
  by (simp add: lookups_with_def)

lemma lookups_with_then_do:
  assumes m: "lookups_with c m" and f: "\<And>a. lookups_with c (f a)"
  shows "lookups_with c (then_do m f)"
proof (rule lookups_withI)
  fix s
  obtain r s1 where ms: "m s = (r, s1)" by (cases "m s")
  from m obtain ids1 where
    t1: "lookup_calls (trace s1) = lookup_calls (trace s) @ map (\<lambda>ID. (ID, c)) ids1"
    unfolding lookups_with_def using ms by (metis snd_conv)
  show "\<exists>ids. lookup_calls (trace (snd (then_do m f s)))
              = lookup_calls (trace s) @ map (\<lambda>ID. (ID, c)) ids"
  proof (cases r)
    case (Inl e)
    then show ?thesis using t1 by (auto simp add: then_do_def ms)
  next
    case (Inr a)
    from f [of a] obtain ids2 where
      "lookup_calls (trace (snd (f a s1))) = lookup_calls (trace s1) @ map (\<lambda>ID. (ID, c)) ids2"
      unfolding lookups_with_def by blast
    then have "lookup_calls (trace (snd (then_do m f s)))
              = lookup_calls (trace s) @ map (\<lambda>ID. (ID, c)) (ids1 @ ids2)"
      using t1 by (simp add: then_do_def ms Inr)
    then show ?thesis by blast
  qed
qed

lemma lookups_with_silent:
  "(\<And>s. lookup_calls (trace (snd (m s))) = lookup_calls (trace s)) \<Longrightarrow> lookups_with c m"
  by (rule lookups_withI) (rule exI [of _ "[]"], simp)

lemma entrezSearch_silent:
  "lookup_calls (trace (snd (entrezSearch R q reldate db st rm retmax dt s))) = lookup_calls (trace s)"
  by (simp add: entrezSearch_def Let_def lookup_calls_append split: prod.splits)

lemma search_all_silent:
  "lookup_calls (trace (snd (search_all R kqs reldate db st retmax dt acc s))) = lookup_calls (trace s)"
proof (induction kqs arbitrary: acc s)
  case Nil
  show ?case by simp
next
  case (Cons kq kqs)
  obtain key query where kq: "kq = (key, query)" by (cases kq)
  obtain r s1 where step: "entrezSearch R query reldate db st ''xml'' retmax dt s = (r, s1)"
    by (cases "entrezSearch R query reldate db st ''xml'' retmax dt s")
  have s1: "lookup_calls (trace s1) = lookup_calls (trace s)"
    using entrezSearch_silent [of R query reldate db st "''xml''" retmax dt s] by (simp add: step)
  show ?case
    by (cases r) (simp_all add: kq step s1 Cons.IH)
qed

lemma fetch_loop_lookups:
  "\<exists>n. lookup_calls (trace (snd (fetch_loop R ids email acc s)))
              = lookup_calls (trace s) @ map (\<lambda>ID. (ID, email)) (take n ids)"
proof (induction ids arbitrary: acc s)
  case Nil
  show ?case by simp
next
  case (Cons ID ids)
  obtain r w where new: "PubMedLookup_new R ID email (world s) = (r, w)"
    by (cases "PubMedLookup_new R ID email (world s)")
  define s1 where "s1 = \<lparr>world = w, trace = trace s @ [PubMedLookupCall ID email r]\<rparr>"
  have lk: "PubMedLookup R ID email s = (r, s1)" by (simp add: PubMedLookup_def new s1_def)
  have t1: "lookup_calls (trace s1) = lookup_calls (trace s) @ [(ID, email)]"
    by (simp add: s1_def lookup_calls_append)
  show ?case
  proof (cases r)
    case (Inl e)
    have "lookup_calls (trace (snd (fetch_loop R (ID # ids) email acc s)))
              = lookup_calls (trace s) @ map (\<lambda>ID. (ID, email)) (take (Suc 0) (ID # ids))"
      by (simp add: lk Inl t1)
    then show ?thesis by blast
  next
    case (Inr l)
    obtain r2 w2 where pn: "Publication_new R l (world s1) = (r2, w2)"
      by (cases "Publication_new R l (world s1)")
    define s2 where "s2 = \<lparr>world = w2, trace = trace s1 @ [PublicationCall l r2]\<rparr>"
    have pb: "Publication R l s1 = (r2, s2)" by (simp add: Publication_def pn s2_def)
    have t2: "lookup_calls (trace s2) = lookup_calls (trace s) @ [(ID, email)]"
      by (simp add: s2_def lookup_calls_append t1)
    obtain acc2 where step: "fetch_loop R (ID # ids) email acc s = fetch_loop R ids email acc2 s2"
      by (cases r2) (simp_all add: lk Inr pb)
    from Cons.IH [of acc2 s2] obtain n where
      "lookup_calls (trace (snd (fetch_loop R ids email acc2 s2)))
              = lookup_calls (trace s2) @ map (\<lambda>ID. (ID, email)) (take n ids)"
      by blast
    then have "lookup_calls (trace (snd (fetch_loop R (ID # ids) email acc s)))
              = lookup_calls (trace s) @ map (\<lambda>ID. (ID, email)) (take (Suc n) (ID # ids))"
      unfolding step by (simp add: t2)
    then show ?thesis by blast
  qed
qed

lemma fetch_lookups_with: "lookups_with email (fetch_pubs_from_ID_list R ids email)"
  unfolding fetch_pubs_from_ID_list_def
  by (rule lookups_withI) (use fetch_loop_lookups in blast)

lemma build_loop_lookups: "lookups_with email (build_loop R sd email acc)"
proof (induction sd arbitrary: acc)
  case Nil
  show ?case by (rule lookups_with_silent) simp
next
  case (Cons kv sd)
  obtain key ids where kv: "kv = (key, ids)" by (cases kv)
  have "build_loop R (kv # sd) email acc =
          then_do (fetch_pubs_from_ID_list R ids email)
            (\<lambda>pubs. build_loop R sd email (od_set acc key pubs))"
    by (auto simp add: kv then_do_def fun_eq_iff split: prod.splits sum.splits)
  then show ?case
    by (simp add: lookups_with_then_do fetch_lookups_with Cons.IH)
qed

lemma main_lookups_with: "lookups_with ''pubmed'' (main R cfg today)"
  unfolding main_def Let_def
  apply (intro lookups_with_then_do)
        apply (rule lookups_with_silent, simp add: set_email_def lookup_calls_append)
       apply (rule lookups_with_silent, simp add: search_by_keywords_def keywords_loop_search_all search_all_silent)
      apply (rule lookups_with_silent, simp add: search_by_authors_def authors_loop_search_all search_all_silent)
     apply (rule lookups_with_silent, simp add: search_by_journal_and_topic_def journal_topic_loop_search_all' search_all_silent)
    apply (simp add: build_result_dict_def build_loop_lookups)
   apply (simp add: build_result_dict_def build_loop_lookups)
  apply (simp add: build_result_dict_def build_loop_lookups)
  apply (rule lookups_with_silent, simp)
  done

section \<open>The report and the hit count, loop by loop\<close>

lemma pubs_loop_append: "pubs_loop acc pubs = acc @ concat (map entry_block pubs)"
  by (induction pubs arbitrary: acc) (simp_all add: entry_block_def)

lemma terms_loop_append:
  "terms_loop acc rd n = acc @ concat (map (term_pieces n) rd)"
proof (induction rd arbitrary: acc)
  case Nil
  show ?case by simp
next
  case (Cons tp rd)
  obtain t pubs where tp: "tp = (t, pubs)" by (cases tp)
  show ?case
    by (cases pubs) (simp_all add: tp Cons.IH term_pieces_def pubs_loop_append)
qed

lemma sections_loop_append:
  "sections_loop acc all n =
     acc @ map (\<lambda>(sec, rd). section_heading sec @ concat (concat (map (term_pieces n) rd))) all"
proof (induction all arbitrary: acc)
  case Nil
  show ?case by simp
next
  case (Cons x all)
  obtain sec rd where x: "x = (sec, rd)" by (cases x)
  show ?case
    by (simp add: x Cons.IH terms_loop_append)
qed

lemma terms_loop_headings:
  "concat (terms_loop [] rd days) =
     concat (map (\<lambda>(key, pub_list).
        ''<h4>'' @ key @ ''</h4>\<newline>''
          @ (if pub_list = [] then no_results_notice key days
             else concat (concat (map entry_block pub_list)))) rd)"
  by (induction rd) (auto simp add: terms_loop_append term_pieces_def term_heading_def)

lemma hits_terms_sum:
  "hits_terms n rd = n + (\<Sum>(term, pub_list)\<leftarrow>rd. int (length pub_list))"
  by (induction rd arbitrary: n) auto

lemma hits_groups_sum:
  "hits_groups n all = n + (\<Sum>(grp, rd)\<leftarrow>all. \<Sum>(term, pub_list)\<leftarrow>rd. int (length pub_list))"
  by (induction all arbitrary: n) (auto simp add: hits_terms_sum)

lemma term_pieces_layout:
  "concat (term_pieces days tp) = concat (map (render_item days) (term_layout tp))"
proof -
  obtain t pubs where tp: "tp = (t, pubs)" by (cases tp)
  have "concat (concat (map entry_block pubs)) = concat (map (render_item days) (map Entry pubs))"
    by (induction pubs) (simp_all add: entry_block_def title_line_def journal_line_def authors_line_def)
  then show ?thesis
    by (simp add: tp term_pieces_def term_layout_def term_heading_def no_results_notice_def)
qed

lemma terms_pieces_layout:
  "concat (concat (map (term_pieces days) rd))
     = concat (map (render_item days) (concat (map term_layout rd)))"
  by (induction rd) (simp_all add: term_pieces_layout)

lemma sections_loop_layout:
  "sections_loop [] all days = map (\<lambda>sec. concat (map (render_item days) (section_layout sec))) all"
  by (simp add: sections_loop_append section_layout_def terms_pieces_layout section_heading_def
        case_prod_unfold)

lemma entries_term_layout: "length (filter is_entry (term_layout (t, pubs))) = length pubs"
  by (simp add: term_layout_def)

lemma entries_terms_layout:
  "int (length (filter is_entry (concat (map term_layout rd))))
     = (\<Sum>(term, pub_list)\<leftarrow>rd. int (length pub_list))"
  by (induction rd) (auto simp add: entries_term_layout)

lemma entries_layout:
  "int (length (filter is_entry (concat (map section_layout all))))
     = (\<Sum>(grp, rd)\<leftarrow>all. \<Sum>(term, pub_list)\<leftarrow>rd. int (length pub_list))"
  by (induction all) (auto simp add: section_layout_def entries_terms_layout)

section \<open>Example runs, evaluated\<close>

lemmas run_defs =
  main_def then_do_def set_email_def search_by_keywords_def search_by_authors_def
  search_by_journal_and_topic_def entrezSearch_def build_result_dict_def
  fetch_pubs_from_ID_list_def PubMedLookup_def Publication_def Let_def
  py_split_def py_isspace_def str_nat.simps



lemma demo_keywords_run:
  "search_by_keywords demo_remote [''gene  editing''] 7 ''pubmed'' ''Most Recent'' 20 ''edat'' init
     = (Inr [(''gene  editing'', [''111'', ''222''])],
        \<lparr>world = 1, trace = [EsearchCall (search_request ''gene+editing[Title/Abstract]''
                                 7 ''pubmed'' ''Most Recent'' 20 ''edat'') (Inr [''111'', ''222''])]\<rparr>)"
  by (simp add: search_by_keywords_def entrezSearch_def search_request_def demo_remote_def init_def
        py_split_def py_isspace_def str_nat.simps)

lemma demo_authors_run:
  "search_by_authors demo_remote [''Smith J''] 7 ''pubmed'' ''Most Recent'' 20 ''edat'' init
     = (Inr [(''Smith J'', [''111'', ''222''])],
        \<lparr>world = 1, trace = [EsearchCall (search_request ''Smith J[Author]''
                                 7 ''pubmed'' ''Most Recent'' 20 ''edat'') (Inr [''111'', ''222''])]\<rparr>)"
  by (simp add: search_by_authors_def entrezSearch_def search_request_def demo_remote_def init_def
        str_nat.simps)

lemma demo_journal_run:
  "search_by_journal_and_topic demo_remote [(''Nature'', [''aging'', ''longevity''])]
       7 ''pubmed'' ''Most Recent'' 20 ''edat'' init
     = (Inr [(''Nature[Journal] AND (aging OR longevity)'', [''111'', ''222''])],
        \<lparr>world = 1, trace = [EsearchCall (search_request ''Nature[Journal] AND (aging OR longevity)''
                                 7 ''pubmed'' ''Most Recent'' 20 ''edat'') (Inr [''111'', ''222''])]\<rparr>)"
  by (simp add: search_by_journal_and_topic_def entrezSearch_def search_request_def demo_remote_def
        init_def str_nat.simps Let_def)

lemma demo_keywords_run':
  "search_by_keywords demo_remote [''gene  editing''] 7 ''pubmed'' ''Most Recent'' 20 ''edat'' init
     = (Inr [(''gene  editing'', [''111'', ''222''])], one_search ''gene+editing[Title/Abstract]'')"
  by (simp add: demo_keywords_run one_search_def)

lemma demo_authors_run':
  "search_by_authors demo_remote [''Smith J''] 7 ''pubmed'' ''Most Recent'' 20 ''edat'' init
     = (Inr [(''Smith J'', [''111'', ''222''])], one_search ''Smith J[Author]'')"
  by (simp add: demo_authors_run one_search_def)

lemma demo_journal_run':
  "search_by_journal_and_topic demo_remote [(''Nature'', [''aging'', ''longevity''])]
       7 ''pubmed'' ''Most Recent'' 20 ''edat'' init
     = (Inr [(''Nature[Journal] AND (aging OR longevity)'', [''111'', ''222''])],
        one_search ''Nature[Journal] AND (aging OR longevity)'')"
  by (simp add: demo_journal_run one_search_def)

lemma repeated_keywords_run:
  "search_by_keywords demo_remote [''a'', ''a'', ''b''] 7 ''pubmed'' ''Most Recent'' 20 ''edat'' init
     = (Inr [(''a'', [''333'', ''444'']), (''b'', [''555'', ''666''])],
        repeated_search ''a[Title/Abstract]'' ''b[Title/Abstract]'')"
  by (simp add: search_by_keywords_def entrezSearch_def search_request_def demo_remote_def init_def
        py_split_def py_isspace_def str_nat.simps repeated_search_def)

lemma repeated_authors_run:
  "search_by_authors demo_remote [''a'', ''a'', ''b''] 7 ''pubmed'' ''Most Recent'' 20 ''edat'' init
     = (Inr [(''a'', [''333'', ''444'']), (''b'', [''555'', ''666''])],
        repeated_search ''a[Author]'' ''b[Author]'')"
  by (simp add: search_by_authors_def entrezSearch_def search_request_def demo_remote_def init_def
        str_nat.simps repeated_search_def)

lemma demo_main_trace:
  "trace (snd (main demo_remote demo_settings ''2017/03/31'' init)) =
     [SetEmail ''reader@example.org'',
      EsearchCall (search_request ''CRISPR[Title/Abstract]'' 7 ''pubmed'' ''Most Recent'' 20 ''edat'')
        (Inr [''111'', ''222'']),
      PubMedLookupCall ''111'' ''pubmed'' (Inr ''111''),
      PublicationCall ''111'' (Inr (demo_publication ''111'')),
      PubMedLookupCall ''222'' ''pubmed'' (Inr ''222''),
      PublicationCall ''222'' (Inl (ExternalError ''IndexError''))]"
  by (simp add: run_defs demo_remote_def demo_settings_def init_def search_request_def)

lemma demo_main_result:
  "main demo_remote demo_settings ''2017/03/31'' init = (Inr demo_run, demo_final_state)"
  by (simp add: run_defs demo_remote_def demo_settings_def init_def search_request_def
        demo_run_def demo_results_def demo_final_state_def count_total_hits_def str_int_def)

lemma empty_main_result:
  "main empty_remote empty_settings ''2017/03/31'' init
     = (Inr empty_run, \<lparr>world = 0, trace = [SetEmail ''reader@example.org'']\<rparr>)"
  by (simp add: run_defs empty_remote_def demo_remote_def empty_settings_def demo_settings_def init_def
        empty_run_def empty_results_def count_total_hits_def str_int_def)

lemma rich_main_run:
  "\<exists>run s'. main empty_remote rich_settings ''2017/03/31'' init = (Inr run, s')"
  by (simp add: run_defs empty_remote_def demo_remote_def rich_settings_def init_def)

lemma repeated_main_run:
  "\<exists>run s'. main empty_remote repeated_settings ''2017/03/31'' init = (Inr run, s')"
  by (simp add: run_defs empty_remote_def demo_remote_def repeated_settings_def demo_settings_def
        init_def)

lemma pair_main_run:
  "\<exists>run s'. main demo_remote pair_settings ''2017/03/31'' init = (Inr run, s')
      \<and> all_results_dict run = pair_results"
  by (simp add: run_defs demo_remote_def pair_settings_def demo_settings_def init_def pair_results_def)

lemma notice_main_run:
  "\<exists>run s'. main empty_remote demo_settings ''2017/03/31'' init = (Inr run, s')
      \<and> all_results_dict run = notice_results"
  by (simp add: run_defs empty_remote_def demo_remote_def demo_settings_def init_def notice_results_def)

lemma nature_main_run:
  "\<exists>run s'. main demo_remote nature_settings ''2017/03/31'' init = (Inr run, s')
      \<and> all_results_dict run = nature_results \<and> trace s' = nature_trace"
  by (simp add: run_defs demo_remote_def nature_settings_def demo_settings_def init_def
        nature_results_def nature_trace_def search_request_def)


section \<open>The claims\<close>




text \<open>
  Claim C2. \<^verbatim>\<open>main\<close> sets \<^verbatim>\<open>Entrez.email\<close> to the configured address, but passes
  \<^verbatim>\<open>database\<close> where \<^verbatim>\<open>build_result_dict\<close> expects the address: every lookup of every
  run receives \<^verbatim>\<open>pubmed\<close> as its credentials. With the address
  \<^verbatim>\<open>reader@example.org\<close> configured, both lookups of the example run do.
\<close>

theorem lookups_receive_database_name:
  "(\<exists>ids. lookup_calls (trace (snd (main R cfg today s)))
            = lookup_calls (trace s) @ map (\<lambda>ID. (ID, ''pubmed'')) ids)
   \<and> cfg_entrez_email demo_settings = ''reader@example.org''
   \<and> hd (trace (snd (main demo_remote demo_settings ''2017/03/31'' init)))
       = SetEmail ''reader@example.org''
   \<and> lookup_calls (trace (snd (main demo_remote demo_settings ''2017/03/31'' init)))
       = [(''111'', ''pubmed''), (''222'', ''pubmed'')]"
proof -
  have "\<exists>ids. lookup_calls (trace (snd (main R cfg today s)))
            = lookup_calls (trace s) @ map (\<lambda>ID. (ID, ''pubmed'')) ids"
    using main_lookups_with [of R cfg today] unfolding lookups_with_def by blast
  moreover have "cfg_entrez_email demo_settings = ''reader@example.org''"
    by (simp add: demo_settings_def)
  ultimately show ?thesis
    by (simp add: demo_main_trace)
qed

text \<open>
  Claim C3. A run of a search function that returns has sent one request per term, in
  order, whose query is the term formatted by the template of the function: the words of
  a keyword joined by \<^verbatim>\<open>+\<close> and followed by \<^verbatim>\<open>[Title/Abstract]\<close>; an author name
  followed by \<^verbatim>\<open>[Author]\<close>; a journal followed by \<^verbatim>\<open>[Journal] AND (\<close>, its topics
  joined by \<^verbatim>\<open> OR \<close>, and a closing parenthesis. The words of a keyword are not
  empty, hold no whitespace, and together are the keyword without its whitespace.
\<close>

theorem term_expander_templates:
  "(search_by_keywords R keywords reldate database sort_type retmax datetype s = (Inr results, s') \<longrightarrow>
      (\<exists>ids_lists. length ids_lists = length keywords
         \<and> trace s' = trace s @ map (\<lambda>(term, ids).
               EsearchCall (search_request (py_join ''+'' (py_split term) @ ''[Title/Abstract]'')
                              reldate database sort_type retmax datetype) (Inr ids))
             (zip keywords ids_lists)))
   \<and> (search_by_authors R authors reldate database sort_type retmax datetype s = (Inr results, s') \<longrightarrow>
      (\<exists>ids_lists. length ids_lists = length authors
         \<and> trace s' = trace s @ map (\<lambda>(name, ids).
               EsearchCall (search_request (name @ ''[Author]'')
                              reldate database sort_type retmax datetype) (Inr ids))
             (zip authors ids_lists)))
   \<and> (search_by_journal_and_topic R journal_topics reldate database sort_type retmax datetype s
         = (Inr results, s') \<longrightarrow>
      (\<exists>ids_lists. length ids_lists = length journal_topics
         \<and> trace s' = trace s @ map (\<lambda>((journal, topic_list), ids).
               EsearchCall (search_request
                   (journal @ ''[Journal] AND ('' @ py_join '' OR '' topic_list @ '')'')
                   reldate database sort_type retmax datetype) (Inr ids))
             (zip journal_topics ids_lists)))
   \<and> concat (py_split term) = filter (\<lambda>c. \<not> py_isspace c) term
   \<and> (\<forall>w\<in>set (py_split term). w \<noteq> [] \<and> (\<forall>c\<in>set w. \<not> py_isspace c))"
proof (intro conjI impI)
  assume "search_by_keywords R keywords reldate database sort_type retmax datetype s = (Inr results, s')"
  from search_by_keywords_Inr [OF this]
  show "\<exists>ids_lists. length ids_lists = length keywords
         \<and> trace s' = trace s @ map (\<lambda>(term, ids).
               EsearchCall (search_request (py_join ''+'' (py_split term) @ ''[Title/Abstract]'')
                              reldate database sort_type retmax datetype) (Inr ids))
             (zip keywords ids_lists)"
    by blast
next
  assume "search_by_authors R authors reldate database sort_type retmax datetype s = (Inr results, s')"
  from search_by_authors_Inr [OF this]
  show "\<exists>ids_lists. length ids_lists = length authors
         \<and> trace s' = trace s @ map (\<lambda>(name, ids).
               EsearchCall (search_request (name @ ''[Author]'')
                              reldate database sort_type retmax datetype) (Inr ids))
             (zip authors ids_lists)"
    by blast
next
  assume "search_by_journal_and_topic R journal_topics reldate database sort_type retmax datetype s
         = (Inr results, s')"
  from search_by_journal_and_topic_Inr [OF this]
  obtain ids_lists where "length ids_lists = length journal_topics"
    "trace s' = trace s @ map (\<lambda>(entry, ids).
           EsearchCall (search_request (fst entry @ ''[Journal] AND ('' @ py_join '' OR '' (snd entry) @ '')'')
                          reldate database sort_type retmax datetype) (Inr ids))
         (zip journal_topics ids_lists)"
    by blast
  then have "length ids_lists = length journal_topics
         \<and> trace s' = trace s @ map (\<lambda>((journal, topic_list), ids).
               EsearchCall (search_request
                   (journal @ ''[Journal] AND ('' @ py_join '' OR '' topic_list @ '')'')
                   reldate database sort_type retmax datetype) (Inr ids))
             (zip journal_topics ids_lists)"
    by (simp add: case_prod_unfold)
  then show "\<exists>ids_lists. length ids_lists = length journal_topics
         \<and> trace s' = trace s @ map (\<lambda>((journal, topic_list), ids).
               EsearchCall (search_request
                   (journal @ ''[Journal] AND ('' @ py_join '' OR '' topic_list @ '')'')
                   reldate database sort_type retmax datetype) (Inr ids))
             (zip journal_topics ids_lists)"
    by blast
next
  show "concat (py_split term) = filter (\<lambda>c. \<not> py_isspace c) term"
    by (simp add: py_split_def split_words_concat)
next
  show "\<forall>w\<in>set (py_split term). w \<noteq> [] \<and> (\<forall>c\<in>set w. \<not> py_isspace c)"
  proof
    fix w assume "w \<in> set (py_split term)"
    then show "w \<noteq> [] \<and> (\<forall>c\<in>set w. \<not> py_isspace c)"
      using split_words_words [of w "[]" "term"] by (simp add: py_split_def)
  qed
qed

text \<open>
  Witness for C3: one term of each kind; the keyword has two spaces between its words.
\<close>

theorem term_expander_templates_witness:
  "search_by_keywords demo_remote [''gene  editing''] 7 ''pubmed'' ''Most Recent'' 20 ''edat'' init
     = (Inr [(''gene  editing'', [''111'', ''222''])], one_search ''gene+editing[Title/Abstract]'')
   \<and> search_by_authors demo_remote [''Smith J''] 7 ''pubmed'' ''Most Recent'' 20 ''edat'' init
     = (Inr [(''Smith J'', [''111'', ''222''])], one_search ''Smith J[Author]'')
   \<and> search_by_journal_and_topic demo_remote [(''Nature'', [''aging'', ''longevity''])]
       7 ''pubmed'' ''Most Recent'' 20 ''edat'' init
     = (Inr [(''Nature[Journal] AND (aging OR longevity)'', [''111'', ''222''])],
        one_search ''Nature[Journal] AND (aging OR longevity)'')
   \<and> (\<exists>ids. trace (one_search ''gene+editing[Title/Abstract]'')
         = [EsearchCall (search_request (py_join ''+'' (py_split ''gene  editing'') @ ''[Title/Abstract]'')
                           7 ''pubmed'' ''Most Recent'' 20 ''edat'') (Inr ids)])
   \<and> (\<exists>ids. trace (one_search ''Smith J[Author]'')
         = [EsearchCall (search_request (''Smith J'' @ ''[Author]'')
                           7 ''pubmed'' ''Most Recent'' 20 ''edat'') (Inr ids)])
   \<and> (\<exists>ids. trace (one_search ''Nature[Journal] AND (aging OR longevity)'')
         = [EsearchCall (search_request
               (''Nature'' @ ''[Journal] AND ('' @ py_join '' OR '' [''aging'', ''longevity''] @ '')'')
               7 ''pubmed'' ''Most Recent'' 20 ''edat'') (Inr ids)])
   \<and> py_split ''gene  editing'' = [''gene'', ''editing'']
   \<and> concat (py_split ''gene  editing'') = ''geneediting''"
proof -
  have single: "\<And>ids_lists :: uid list list. length ids_lists = Suc 0 \<Longrightarrow> \<exists>ids. ids_lists = [ids]"
    by (simp add: length_Suc_conv)
  from term_expander_templates [THEN conjunct1, THEN mp, OF demo_keywords_run']
  obtain kl where "length kl = Suc 0"
    and k: "trace (one_search ''gene+editing[Title/Abstract]'')
       = trace init @ map (\<lambda>(term, ids).
               EsearchCall (search_request (py_join ''+'' (py_split term) @ ''[Title/Abstract]'')
                              7 ''pubmed'' ''Most Recent'' 20 ''edat'') (Inr ids))
             (zip [''gene  editing''] kl)"
    by auto
  from single [OF this(1)] k
  have c1: "\<exists>ids. trace (one_search ''gene+editing[Title/Abstract]'')
         = [EsearchCall (search_request (py_join ''+'' (py_split ''gene  editing'') @ ''[Title/Abstract]'')
                           7 ''pubmed'' ''Most Recent'' 20 ''edat'') (Inr ids)]"
    by (auto simp add: init_def)
  from term_expander_templates [THEN conjunct2, THEN conjunct1, THEN mp, OF demo_authors_run']
  obtain al where "length al = Suc 0"
    and a: "trace (one_search ''Smith J[Author]'')
       = trace init @ map (\<lambda>(name, ids).
               EsearchCall (search_request (name @ ''[Author]'')
                              7 ''pubmed'' ''Most Recent'' 20 ''edat'') (Inr ids))
             (zip [''Smith J''] al)"
    by auto
  from single [OF this(1)] a
  have c2: "\<exists>ids. trace (one_search ''Smith J[Author]'')
         = [EsearchCall (search_request (''Smith J'' @ ''[Author]'')
                           7 ''pubmed'' ''Most Recent'' 20 ''edat'') (Inr ids)]"
    by (auto simp add: init_def)
  from term_expander_templates
         [THEN conjunct2, THEN conjunct2, THEN conjunct1, THEN mp, OF demo_journal_run']
  obtain jl where "length jl = Suc 0"
    and j: "trace (one_search ''Nature[Journal] AND (aging OR longevity)'')
       = trace init @ map (\<lambda>((journal, topic_list), ids).
               EsearchCall (search_request
                   (journal @ ''[Journal] AND ('' @ py_join '' OR '' topic_list @ '')'')
                   7 ''pubmed'' ''Most Recent'' 20 ''edat'') (Inr ids))
             (zip [(''Nature'', [''aging'', ''longevity''])] jl)"
    by auto
  from single [OF this(1)] j
  have c3: "\<exists>ids. trace (one_search ''Nature[Journal] AND (aging OR longevity)'')
         = [EsearchCall (search_request
               (''Nature'' @ ''[Journal] AND ('' @ py_join '' OR '' [''aging'', ''longevity''] @ '')'')
               7 ''pubmed'' ''Most Recent'' 20 ''edat'') (Inr ids)]"
    by (auto simp add: init_def)
  have words: "py_split ''gene  editing'' = [''gene'', ''editing'']"
    by (simp add: py_split_def py_isspace_def)
  have "concat (py_split ''gene  editing'') = filter (\<lambda>c. \<not> py_isspace c) ''gene  editing''"
    by (rule term_expander_templates [THEN conjunct2, THEN conjunct2, THEN conjunct2, THEN conjunct1])
  then have letters: "concat (py_split ''gene  editing'') = ''geneediting''"
    by (simp add: py_isspace_def)
  show ?thesis
    using demo_keywords_run' demo_authors_run' demo_journal_run' c1 c2 c3 words letters by blast
qed

text \<open>
  Claim C4. A run of \<^verbatim>\<open>search_by_journal_and_topic\<close> that returns has sent, for every
  entry, the formatted string as the query, and the keys of its result are the formatted
  strings of the entries; where these are pairwise different, the result binds each
  formatted string to the identifiers that its own search returned. A run of \<^verbatim>\<open>main\<close>
  that returns has sent these queries, in the order of the entries; the keys of the
  journal and topic category of its final mapping are the same formatted strings; and the
  third section of its report renders each of these keys, unchanged, as the heading of a
  subsection.
\<close>

theorem journal_topic_query_is_key:
  "(search_by_journal_and_topic R journal_topics reldate database sort_type retmax datetype s
       = (Inr results, s') \<longrightarrow>
     (\<exists>ids_lists. length ids_lists = length journal_topics
        \<and> trace s' = trace s @ map (\<lambda>((journal, topic_list), ids).
               EsearchCall (search_request
                   (journal @ ''[Journal] AND ('' @ py_join '' OR '' topic_list @ '')'')
                   reldate database sort_type retmax datetype) (Inr ids))
             (zip journal_topics ids_lists)
        \<and> set (map fst results)
            = (\<lambda>(journal, topic_list).
                 journal @ ''[Journal] AND ('' @ py_join '' OR '' topic_list @ '')'') ` set journal_topics
        \<and> (distinct (map (\<lambda>(journal, topic_list).
                 journal @ ''[Journal] AND ('' @ py_join '' OR '' topic_list @ '')'') journal_topics)
             \<longrightarrow> results = zip (map (\<lambda>(journal, topic_list).
                 journal @ ''[Journal] AND ('' @ py_join '' OR '' topic_list @ '')'') journal_topics)
                   ids_lists)))
   \<and> (main R cfg today s = (Inr run, s') \<longrightarrow>
     (\<exists>keyword_publications author_publications journal_topic_publications ids_lists
         earlier later.
        all_results_dict run =
          [(''Keyword Searches'', keyword_publications),
           (''Author Searches'', author_publications),
           (''Journal and Topic Searches'', journal_topic_publications)]
      \<and> length ids_lists = length (cfg_journal_topic_dict cfg)
      \<and> trace s' = earlier @ map (\<lambda>((journal, topic_list), ids).
               EsearchCall (search_request
                   (journal @ ''[Journal] AND ('' @ py_join '' OR '' topic_list @ '')'')
                   (cfg_pub_days_ago cfg) ''pubmed'' ''Most Recent'' 20 ''edat'') (Inr ids))
             (zip (cfg_journal_topic_dict cfg) ids_lists) @ later
      \<and> map fst journal_topic_publications
          = rev (remdups (rev (map (\<lambda>(journal, topic_list).
                  journal @ ''[Journal] AND ('' @ py_join '' OR '' topic_list @ '')'')
                (cfg_journal_topic_dict cfg))))
      \<and> msg_body (message run) =
          html_header @ ''\<newline>''
            @ ''<h2 style=\"color:red;\">Keyword Searches</h2>\<newline>''
            @ concat (terms_loop [] keyword_publications (cfg_pub_days_ago cfg))
            @ ''<br/>''
            @ ''<h2 style=\"color:red;\">Author Searches</h2>\<newline>''
            @ concat (terms_loop [] author_publications (cfg_pub_days_ago cfg))
            @ ''<br/>''
            @ ''<h2 style=\"color:red;\">Journal and Topic Searches</h2>\<newline>''
            @ concat (map (\<lambda>(key, pub_list).
                ''<h4>'' @ key @ ''</h4>\<newline>''
                  @ (if pub_list = [] then no_results_notice key (cfg_pub_days_ago cfg)
                     else concat (concat (map entry_block pub_list))))
                journal_topic_publications)
            @ ''\<newline>'' @ html_tail))"
proof (intro conjI impI)
  assume "search_by_journal_and_topic R journal_topics reldate database sort_type retmax datetype s
       = (Inr results, s')"
  from search_by_journal_and_topic_Inr [OF this]
  obtain ids_lists where len: "length ids_lists = length journal_topics"
    and tr: "trace s' = trace s @ map (\<lambda>(entry, ids).
           EsearchCall (search_request (fst entry @ ''[Journal] AND ('' @ py_join '' OR '' (snd entry) @ '')'')
                          reldate database sort_type retmax datetype) (Inr ids))
         (zip journal_topics ids_lists)"
    and res: "results = od_of (zip (map (\<lambda>entry.
           fst entry @ ''[Journal] AND ('' @ py_join '' OR '' (snd entry) @ '')'') journal_topics) ids_lists) []"
    by blast
  let ?fmt = "\<lambda>(journal, topic_list).
                 journal @ ''[Journal] AND ('' @ py_join '' OR '' topic_list @ '')''"
  have fmt: "(\<lambda>entry. fst entry @ ''[Journal] AND ('' @ py_join '' OR '' (snd entry) @ '')'') = ?fmt"
    by (simp add: fun_eq_iff)
  have res': "results = od_of (zip (map ?fmt journal_topics) ids_lists) []"
    using res unfolding fmt .
  have keys: "map fst (zip (map ?fmt journal_topics) ids_lists) = map ?fmt journal_topics"
    using len by simp
  have c2: "trace s' = trace s @ map (\<lambda>((journal, topic_list), ids).
               EsearchCall (search_request
                   (journal @ ''[Journal] AND ('' @ py_join '' OR '' topic_list @ '')'')
                   reldate database sort_type retmax datetype) (Inr ids))
             (zip journal_topics ids_lists)"
    using tr by (simp add: case_prod_unfold)
  have c3: "set (map fst results) = ?fmt ` set journal_topics"
    unfolding res' od_of_keys_empty keys by simp
  have c4: "distinct (map ?fmt journal_topics) \<longrightarrow> results = zip (map ?fmt journal_topics) ids_lists"
    unfolding res' using keys by (simp add: od_of_distinct_id)
  from len c2 c3 c4
  show "\<exists>ids_lists. length ids_lists = length journal_topics
        \<and> trace s' = trace s @ map (\<lambda>((journal, topic_list), ids).
               EsearchCall (search_request
                   (journal @ ''[Journal] AND ('' @ py_join '' OR '' topic_list @ '')'')
                   reldate database sort_type retmax datetype) (Inr ids))
             (zip journal_topics ids_lists)
        \<and> set (map fst results) = ?fmt ` set journal_topics
        \<and> (distinct (map ?fmt journal_topics)
             \<longrightarrow> results = zip (map ?fmt journal_topics) ids_lists)"
    by blast
next
  assume "main R cfg today s = (Inr run, s')"
  then show "\<exists>keyword_publications author_publications journal_topic_publications ids_lists
         earlier later.
        all_results_dict run =
          [(''Keyword Searches'', keyword_publications),
           (''Author Searches'', author_publications),
           (''Journal and Topic Searches'', journal_topic_publications)]
      \<and> length ids_lists = length (cfg_journal_topic_dict cfg)
      \<and> trace s' = earlier @ map (\<lambda>((journal, topic_list), ids).
               EsearchCall (search_request
                   (journal @ ''[Journal] AND ('' @ py_join '' OR '' topic_list @ '')'')
                   (cfg_pub_days_ago cfg) ''pubmed'' ''Most Recent'' 20 ''edat'') (Inr ids))
             (zip (cfg_journal_topic_dict cfg) ids_lists) @ later
      \<and> map fst journal_topic_publications
          = rev (remdups (rev (map (\<lambda>(journal, topic_list).
                  journal @ ''[Journal] AND ('' @ py_join '' OR '' topic_list @ '')'')
                (cfg_journal_topic_dict cfg))))
      \<and> msg_body (message run) =
          html_header @ ''\<newline>''
            @ ''<h2 style=\"color:red;\">Keyword Searches</h2>\<newline>''
            @ concat (terms_loop [] keyword_publications (cfg_pub_days_ago cfg))
            @ ''<br/>''
            @ ''<h2 style=\"color:red;\">Author Searches</h2>\<newline>''
            @ concat (terms_loop [] author_publications (cfg_pub_days_ago cfg))
            @ ''<br/>''
            @ ''<h2 style=\"color:red;\">Journal and Topic Searches</h2>\<newline>''
            @ concat (map (\<lambda>(key, pub_list).
                ''<h4>'' @ key @ ''</h4>\<newline>''
                  @ (if pub_list = [] then no_results_notice key (cfg_pub_days_ago cfg)
                     else concat (concat (map entry_block pub_list))))
                journal_topic_publications)
            @ ''\<newline>'' @ html_tail"
  proof (rule main_InrE)
    fix s0 kr s1 ar s2 jr s3 kp s4 ap s5 jp
    assume sj: "search_by_journal_and_topic R (cfg_journal_topic_dict cfg) (cfg_pub_days_ago cfg) ''pubmed'' ''Most Recent'' 20 ''edat'' s2 = (Inr jr, s3)"
      and bk: "build_result_dict R kr ''pubmed'' s3 = (Inr kp, s4)"
      and ba: "build_result_dict R ar ''pubmed'' s4 = (Inr ap, s5)"
      and bj: "build_result_dict R jr ''pubmed'' s5 = (Inr jp, s')"
      and all: "all_results_dict run = [(''Keyword Searches'', kp), (''Author Searches'', ap), (''Journal and Topic Searches'', jp)]"
      and body: "msg_body (message run) = construct_email_body (all_results_dict run) (cfg_pub_days_ago cfg)"
    from search_by_journal_and_topic_Inr [OF sj]
    obtain ids_lists where len: "length ids_lists = length (cfg_journal_topic_dict cfg)"
      and tr: "trace s3 = trace s2 @ map (\<lambda>(entry, ids).
           EsearchCall (search_request (fst entry @ ''[Journal] AND ('' @ py_join '' OR '' (snd entry) @ '')'')
                          (cfg_pub_days_ago cfg) ''pubmed'' ''Most Recent'' 20 ''edat'') (Inr ids))
         (zip (cfg_journal_topic_dict cfg) ids_lists)"
      by blast
    from build_result_dict_trace [OF bk] build_result_dict_trace [OF ba] build_result_dict_trace [OF bj]
    obtain e4 e5 e6 where "trace s4 = trace s3 @ e4" "trace s5 = trace s4 @ e5" "trace s' = trace s5 @ e6"
      by blast
    then have t: "trace s' = trace s2 @ map (\<lambda>((journal, topic_list), ids).
               EsearchCall (search_request
                   (journal @ ''[Journal] AND ('' @ py_join '' OR '' topic_list @ '')'')
                   (cfg_pub_days_ago cfg) ''pubmed'' ''Most Recent'' 20 ''edat'') (Inr ids))
             (zip (cfg_journal_topic_dict cfg) ids_lists) @ (e4 @ e5 @ e6)"
      using tr by (simp add: case_prod_unfold)
    have k: "map fst jp = rev (remdups (rev (map (\<lambda>(journal, topic_list).
                  journal @ ''[Journal] AND ('' @ py_join '' OR '' topic_list @ '')'')
                (cfg_journal_topic_dict cfg))))"
      by (rule build_result_dict_keys' [OF bj search_keys_distinct_journal [OF sj]])
    have b: "msg_body (message run) =
          html_header @ ''\<newline>''
            @ ''<h2 style=\"color:red;\">Keyword Searches</h2>\<newline>''
            @ concat (terms_loop [] kp (cfg_pub_days_ago cfg))
            @ ''<br/>''
            @ ''<h2 style=\"color:red;\">Author Searches</h2>\<newline>''
            @ concat (terms_loop [] ap (cfg_pub_days_ago cfg))
            @ ''<br/>''
            @ ''<h2 style=\"color:red;\">Journal and Topic Searches</h2>\<newline>''
            @ concat (terms_loop [] jp (cfg_pub_days_ago cfg))
            @ ''\<newline>'' @ html_tail"
      unfolding body all
      by (simp add: construct_email_body_def sections_loop_append terms_loop_append section_heading_def)
    from all len t k b [unfolded terms_loop_headings [of jp]]
    show ?thesis by blast
  qed
qed

text \<open>
  Witness for C4: the entry of the journal Nature with the topics aging and longevity, in
  the search alone and through a whole run.
\<close>

theorem journal_topic_query_is_key_witness:
  "search_by_journal_and_topic demo_remote [(''Nature'', [''aging'', ''longevity''])]
       7 ''pubmed'' ''Most Recent'' 20 ''edat'' init
     = (Inr [(''Nature[Journal] AND (aging OR longevity)'', [''111'', ''222''])],
        one_search ''Nature[Journal] AND (aging OR longevity)'')
   \<and> distinct (map (\<lambda>(journal, topic_list).
                 journal @ ''[Journal] AND ('' @ py_join '' OR '' topic_list @ '')'')
         [(''Nature'', [''aging'', ''longevity''])])
   \<and> trace (one_search ''Nature[Journal] AND (aging OR longevity)'')
       = [EsearchCall (search_request ''Nature[Journal] AND (aging OR longevity)''
                         7 ''pubmed'' ''Most Recent'' 20 ''edat'') (Inr [''111'', ''222''])]
   \<and> set (map fst [(''Nature[Journal] AND (aging OR longevity)'', [''111'', ''222''])])
       = {''Nature[Journal] AND (aging OR longevity)''}
   \<and> cfg_journal_topic_dict nature_settings = [(''Nature'', [''aging'', ''longevity''])]
   \<and> map_sum id all_results_dict (fst (main demo_remote nature_settings ''2017/03/31'' init))
       = Inr nature_results
   \<and> trace (snd (main demo_remote nature_settings ''2017/03/31'' init)) = nature_trace
   \<and> map_sum id report_body (fst (main demo_remote nature_settings ''2017/03/31'' init))
       = Inr (html_header @ ''\<newline>''
            @ ''<h2 style=\"color:red;\">Keyword Searches</h2>\<newline>''
            @ ''<br/>''
            @ ''<h2 style=\"color:red;\">Author Searches</h2>\<newline>''
            @ ''<br/>''
            @ ''<h2 style=\"color:red;\">Journal and Topic Searches</h2>\<newline>''
            @ ''<h4>Nature[Journal] AND (aging OR longevity)</h4>\<newline>''
            @ concat (entry_block (demo_publication ''111''))
            @ ''\<newline>'' @ html_tail)"
proof -
  from journal_topic_query_is_key [THEN conjunct1, THEN mp, OF demo_journal_run']
  obtain ids_lists where
    "set (map fst [(''Nature[Journal] AND (aging OR longevity)'', [''111'', ''222''])])
       = (\<lambda>(journal, topic_list).
                 journal @ ''[Journal] AND ('' @ py_join '' OR '' topic_list @ '')'')
           ` set [(''Nature'', [''aging'', ''longevity''])]"
    by blast
  then have keys: "set (map fst [(''Nature[Journal] AND (aging OR longevity)'', [''111'', ''222''])])
       = {''Nature[Journal] AND (aging OR longevity)''}"
    by simp
  have cfg: "cfg_journal_topic_dict nature_settings = [(''Nature'', [''aging'', ''longevity''])]"
    "cfg_pub_days_ago nature_settings = 7"
    by (simp_all add: nature_settings_def demo_settings_def)
  from nature_main_run obtain run s' where
    run: "main demo_remote nature_settings ''2017/03/31'' init = (Inr run, s')"
    and res: "all_results_dict run = nature_results" and tr: "trace s' = nature_trace"
    by blast
  from journal_topic_query_is_key [THEN conjunct2, THEN mp, OF run]
  obtain kp ap jp where
    all: "all_results_dict run =
          [(''Keyword Searches'', kp), (''Author Searches'', ap), (''Journal and Topic Searches'', jp)]"
    and body: "msg_body (message run) =
          html_header @ ''\<newline>''
            @ ''<h2 style=\"color:red;\">Keyword Searches</h2>\<newline>''
            @ concat (terms_loop [] kp (cfg_pub_days_ago nature_settings))
            @ ''<br/>''
            @ ''<h2 style=\"color:red;\">Author Searches</h2>\<newline>''
            @ concat (terms_loop [] ap (cfg_pub_days_ago nature_settings))
            @ ''<br/>''
            @ ''<h2 style=\"color:red;\">Journal and Topic Searches</h2>\<newline>''
            @ concat (map (\<lambda>(key, pub_list).
                ''<h4>'' @ key @ ''</h4>\<newline>''
                  @ (if pub_list = [] then no_results_notice key (cfg_pub_days_ago nature_settings)
                     else concat (concat (map entry_block pub_list))))
                jp)
            @ ''\<newline>'' @ html_tail"
    by blast
  from all res have parts: "kp = []" "ap = []"
    "jp = [(''Nature[Journal] AND (aging OR longevity)'', [demo_publication ''111''])]"
    by (simp_all add: nature_results_def)
  have "report_body run
       = html_header @ ''\<newline>''
            @ ''<h2 style=\"color:red;\">Keyword Searches</h2>\<newline>''
            @ ''<br/>''
            @ ''<h2 style=\"color:red;\">Author Searches</h2>\<newline>''
            @ ''<br/>''
            @ ''<h2 style=\"color:red;\">Journal and Topic Searches</h2>\<newline>''
            @ ''<h4>Nature[Journal] AND (aging OR longevity)</h4>\<newline>''
            @ concat (entry_block (demo_publication ''111''))
            @ ''\<newline>'' @ html_tail"
    unfolding report_body_def body parts by simp
  then show ?thesis
    using demo_journal_run' keys cfg(1) by (simp add: run res tr one_search_def)
qed

text \<open>
  Claim C5. The total hit count is the sum, over every category and every term of it, of
  the length of the term's publication list; appending one publication to the list of
  any term of any category raises the count by one. A run of \<^verbatim>\<open>main\<close> that returns has
  computed this sum over its aggregated structure as \<^verbatim>\<open>total_hits\<close>, and put it into the
  subject.
\<close>

theorem total_hits_sum_and_monotone:
  "count_total_hits all =
     (\<Sum>(category, result_dict)\<leftarrow>all. \<Sum>(term, pub_list)\<leftarrow>result_dict. int (length pub_list))
   \<and> count_total_hits (cats1 @ (category, terms1 @ (term, pub_list @ [pub]) # terms2) # cats2)
       = count_total_hits (cats1 @ (category, terms1 @ (term, pub_list) # terms2) # cats2) + 1
   \<and> (main R cfg today s = (Inr run, s') \<longrightarrow>
        total_hits run =
          (\<Sum>(category, result_dict)\<leftarrow>all_results_dict run.
             \<Sum>(term, pub_list)\<leftarrow>result_dict. int (length pub_list))
      \<and> msg_subject (message run)
          = ''pub scraper report - '' @ today @ '' ('' @ str_int (total_hits run) @ '' hits)'')"
proof (intro conjI impI)
  show "count_total_hits all =
     (\<Sum>(category, result_dict)\<leftarrow>all. \<Sum>(term, pub_list)\<leftarrow>result_dict. int (length pub_list))"
    by (simp add: count_total_hits_def hits_groups_sum)
next
  show "count_total_hits (cats1 @ (category, terms1 @ (term, pub_list @ [pub]) # terms2) # cats2)
       = count_total_hits (cats1 @ (category, terms1 @ (term, pub_list) # terms2) # cats2) + 1"
    by (simp add: count_total_hits_def hits_groups_sum)
next
  assume "main R cfg today s = (Inr run, s')"
  then show "total_hits run =
          (\<Sum>(category, result_dict)\<leftarrow>all_results_dict run.
             \<Sum>(term, pub_list)\<leftarrow>result_dict. int (length pub_list))"
    by (rule main_InrE) (simp add: count_total_hits_def hits_groups_sum)
next
  assume "main R cfg today s = (Inr run, s')"
  then show "msg_subject (message run)
          = ''pub scraper report - '' @ today @ '' ('' @ str_int (total_hits run) @ '' hits)''"
    by (rule main_InrE)
qed

text \<open>
  Witness for C5: a run with one keyword and one author, and three hits in two categories.
\<close>

theorem total_hits_sum_and_monotone_witness:
  "map_sum id all_results_dict (fst (main demo_remote pair_settings ''2017/03/31'' init))
     = Inr pair_results
   \<and> map_sum id total_hits (fst (main demo_remote pair_settings ''2017/03/31'' init)) = Inr 3
   \<and> (\<Sum>(category, result_dict)\<leftarrow>pair_results.
         \<Sum>(term, pub_list)\<leftarrow>result_dict. int (length pub_list)) = 3"
proof -
  from pair_main_run obtain run s' where
    run: "main demo_remote pair_settings ''2017/03/31'' init = (Inr run, s')"
    and res: "all_results_dict run = pair_results"
    by blast
  from total_hits_sum_and_monotone [THEN conjunct2, THEN conjunct2, THEN mp, OF run]
  have "total_hits run =
          (\<Sum>(category, result_dict)\<leftarrow>all_results_dict run.
             \<Sum>(term, pub_list)\<leftarrow>result_dict. int (length pub_list))"
    by (rule conjunct1)
  moreover have "(\<Sum>(category, result_dict)\<leftarrow>pair_results.
         \<Sum>(term, pub_list)\<leftarrow>result_dict. int (length pub_list)) = 3"
    by (simp add: pair_results_def)
  ultimately show ?thesis
    by (simp add: run res)
qed

text \<open>
  Claim C6. The report of a run of \<^verbatim>\<open>main\<close> that returns is the header, the three
  sections headed Keyword Searches, Author Searches and Journal and Topic Searches, in
  this order and separated by \<^verbatim>\<open><br/>\<close>, and the tail; each section is its heading
  followed by the pieces of its terms.
\<close>

theorem report_has_three_sections_in_order:
  "main R cfg today s = (Inr run, s') \<longrightarrow>
     (\<exists>keyword_publications author_publications journal_topic_publications.
        all_results_dict run =
          [(''Keyword Searches'', keyword_publications),
           (''Author Searches'', author_publications),
           (''Journal and Topic Searches'', journal_topic_publications)]
      \<and> msg_body (message run) =
          html_header @ ''\<newline>''
            @ ''<h2 style=\"color:red;\">Keyword Searches</h2>\<newline>''
            @ concat (terms_loop [] keyword_publications (cfg_pub_days_ago cfg))
            @ ''<br/>''
            @ ''<h2 style=\"color:red;\">Author Searches</h2>\<newline>''
            @ concat (terms_loop [] author_publications (cfg_pub_days_ago cfg))
            @ ''<br/>''
            @ ''<h2 style=\"color:red;\">Journal and Topic Searches</h2>\<newline>''
            @ concat (terms_loop [] journal_topic_publications (cfg_pub_days_ago cfg))
            @ ''\<newline>'' @ html_tail)"
proof
  assume "main R cfg today s = (Inr run, s')"
  then show "\<exists>keyword_publications author_publications journal_topic_publications.
        all_results_dict run =
          [(''Keyword Searches'', keyword_publications),
           (''Author Searches'', author_publications),
           (''Journal and Topic Searches'', journal_topic_publications)]
      \<and> msg_body (message run) =
          html_header @ ''\<newline>''
            @ ''<h2 style=\"color:red;\">Keyword Searches</h2>\<newline>''
            @ concat (terms_loop [] keyword_publications (cfg_pub_days_ago cfg))
            @ ''<br/>''
            @ ''<h2 style=\"color:red;\">Author Searches</h2>\<newline>''
            @ concat (terms_loop [] author_publications (cfg_pub_days_ago cfg))
            @ ''<br/>''
            @ ''<h2 style=\"color:red;\">Journal and Topic Searches</h2>\<newline>''
            @ concat (terms_loop [] journal_topic_publications (cfg_pub_days_ago cfg))
            @ ''\<newline>'' @ html_tail"
  proof (rule main_InrE)
    fix kp ap jp
    assume all: "all_results_dict run = [(''Keyword Searches'', kp), (''Author Searches'', ap), (''Journal and Topic Searches'', jp)]"
      and body: "msg_body (message run) = construct_email_body (all_results_dict run) (cfg_pub_days_ago cfg)"
    have "msg_body (message run) =
          html_header @ ''\<newline>''
            @ ''<h2 style=\"color:red;\">Keyword Searches</h2>\<newline>''
            @ concat (terms_loop [] kp (cfg_pub_days_ago cfg))
            @ ''<br/>''
            @ ''<h2 style=\"color:red;\">Author Searches</h2>\<newline>''
            @ concat (terms_loop [] ap (cfg_pub_days_ago cfg))
            @ ''<br/>''
            @ ''<h2 style=\"color:red;\">Journal and Topic Searches</h2>\<newline>''
            @ concat (terms_loop [] jp (cfg_pub_days_ago cfg))
            @ ''\<newline>'' @ html_tail"
      unfolding body all
      by (simp add: construct_email_body_def sections_loop_append terms_loop_append section_heading_def)
    with all show ?thesis by blast
  qed
qed

text \<open>
  Witness for C6: no term is configured, and each section is its heading alone.
\<close>

theorem report_has_three_sections_in_order_witness:
  "main empty_remote empty_settings ''2017/03/31'' init
     = (Inr empty_run, \<lparr>world = 0, trace = [SetEmail ''reader@example.org'']\<rparr>)
   \<and> msg_body (message empty_run) =
          html_header @ ''\<newline>''
            @ ''<h2 style=\"color:red;\">Keyword Searches</h2>\<newline>''
            @ ''<br/>''
            @ ''<h2 style=\"color:red;\">Author Searches</h2>\<newline>''
            @ ''<br/>''
            @ ''<h2 style=\"color:red;\">Journal and Topic Searches</h2>\<newline>''
            @ ''\<newline>'' @ html_tail"
proof -
  from report_has_three_sections_in_order [THEN mp, OF empty_main_result]
  obtain kp ap jp where
    "all_results_dict empty_run =
          [(''Keyword Searches'', kp), (''Author Searches'', ap), (''Journal and Topic Searches'', jp)]"
    and "msg_body (message empty_run) =
          html_header @ ''\<newline>''
            @ ''<h2 style=\"color:red;\">Keyword Searches</h2>\<newline>''
            @ concat (terms_loop [] kp (cfg_pub_days_ago empty_settings))
            @ ''<br/>''
            @ ''<h2 style=\"color:red;\">Author Searches</h2>\<newline>''
            @ concat (terms_loop [] ap (cfg_pub_days_ago empty_settings))
            @ ''<br/>''
            @ ''<h2 style=\"color:red;\">Journal and Topic Searches</h2>\<newline>''
            @ concat (terms_loop [] jp (cfg_pub_days_ago empty_settings))
            @ ''\<newline>'' @ html_tail"
    by blast
  then have "msg_body (message empty_run) =
          html_header @ ''\<newline>''
            @ ''<h2 style=\"color:red;\">Keyword Searches</h2>\<newline>''
            @ ''<br/>''
            @ ''<h2 style=\"color:red;\">Author Searches</h2>\<newline>''
            @ ''<br/>''
            @ ''<h2 style=\"color:red;\">Journal and Topic Searches</h2>\<newline>''
            @ ''\<newline>'' @ html_tail"
    by (simp add: empty_run_def empty_results_def)
  with empty_main_result show ?thesis by blast
qed

text \<open>
  Claim C7. A term with an empty publication list adds to the report exactly two pieces,
  after the pieces of the terms before it and before those of the terms after it: its
  heading, and the notice that names the term and the day window. So the body that
  \<^verbatim>\<open>construct_email_body\<close> returns holds, in the section of the term's category and between
  the text of the terms before and after it, the heading followed by the notice; and the
  body of a run of \<^verbatim>\<open>main\<close> that returns is this body, for the configured day window.
\<close>

theorem empty_term_renders_notice:
  "terms_loop report_subsection (before @ (term, []) # after) days =
     terms_loop report_subsection before days
       @ [''<h4>'' @ term @ ''</h4>\<newline>'',
          ''<p>No results for '' @ [CHR 0x27] @ term @ [CHR 0x27] @ '' in the last ''
             @ str_int days @ '' days</p>\<newline>'']
       @ terms_loop [] after days
   \<and> construct_email_body (cats1 @ (category, before @ (term, []) # after) # cats2) days =
       html_header @ ''\<newline>''
         @ py_join ''<br/>''
             (sections_loop [] cats1 days
                @ [''<h2 style=\"color:red;\">'' @ category @ ''</h2>\<newline>''
                     @ concat (terms_loop [] before days)
                     @ ''<h4>'' @ term @ ''</h4>\<newline>''
                     @ ''<p>No results for '' @ [CHR 0x27] @ term @ [CHR 0x27] @ '' in the last ''
                     @ str_int days @ '' days</p>\<newline>''
                     @ concat (terms_loop [] after days)]
                @ sections_loop [] cats2 days)
         @ ''\<newline>'' @ html_tail
   \<and> (main R cfg today s = (Inr run, s') \<longrightarrow>
        msg_body (message run) = construct_email_body (all_results_dict run) (cfg_pub_days_ago cfg))"
proof (intro conjI impI)
  show "terms_loop report_subsection (before @ (term, []) # after) days =
     terms_loop report_subsection before days
       @ [''<h4>'' @ term @ ''</h4>\<newline>'',
          ''<p>No results for '' @ [CHR 0x27] @ term @ [CHR 0x27] @ '' in the last ''
             @ str_int days @ '' days</p>\<newline>'']
       @ terms_loop [] after days"
    by (simp add: terms_loop_append term_pieces_def term_heading_def no_results_notice_def)
next
  show "construct_email_body (cats1 @ (category, before @ (term, []) # after) # cats2) days =
       html_header @ ''\<newline>''
         @ py_join ''<br/>''
             (sections_loop [] cats1 days
                @ [''<h2 style=\"color:red;\">'' @ category @ ''</h2>\<newline>''
                     @ concat (terms_loop [] before days)
                     @ ''<h4>'' @ term @ ''</h4>\<newline>''
                     @ ''<p>No results for '' @ [CHR 0x27] @ term @ [CHR 0x27] @ '' in the last ''
                     @ str_int days @ '' days</p>\<newline>''
                     @ concat (terms_loop [] after days)]
                @ sections_loop [] cats2 days)
         @ ''\<newline>'' @ html_tail"
    by (simp add: construct_email_body_def sections_loop_append terms_loop_append term_pieces_def
          term_heading_def no_results_notice_def section_heading_def)
next
  assume "main R cfg today s = (Inr run, s')"
  then show "msg_body (message run) = construct_email_body (all_results_dict run) (cfg_pub_days_ago cfg)"
    by (rule main_InrE)
qed

text \<open>
  Witness for C7: a run whose only keyword finds nothing in the last 7 days.
\<close>

theorem empty_term_renders_notice_witness:
  "map_sum id all_results_dict (fst (main empty_remote demo_settings ''2017/03/31'' init))
     = Inr notice_results
   \<and> cfg_pub_days_ago demo_settings = 7
   \<and> map_sum id report_body (fst (main empty_remote demo_settings ''2017/03/31'' init))
     = Inr (html_header @ ''\<newline>''
         @ ''<h2 style=\"color:red;\">Keyword Searches</h2>\<newline>''
         @ ''<h4>CRISPR</h4>\<newline>''
         @ ''<p>No results for '' @ [CHR 0x27] @ ''CRISPR'' @ [CHR 0x27]
         @ '' in the last 7 days</p>\<newline>''
         @ ''<br/>''
         @ ''<h2 style=\"color:red;\">Author Searches</h2>\<newline>''
         @ ''<br/>''
         @ ''<h2 style=\"color:red;\">Journal and Topic Searches</h2>\<newline>''
         @ ''\<newline>'' @ html_tail)"
proof -
  from notice_main_run obtain run s' where
    run: "main empty_remote demo_settings ''2017/03/31'' init = (Inr run, s')"
    and res: "all_results_dict run = notice_results"
    by blast
  have days: "cfg_pub_days_ago demo_settings = 7" by (simp add: demo_settings_def)
  from empty_term_renders_notice [THEN conjunct2, THEN conjunct2, THEN mp, OF run]
  have "report_body run = construct_email_body notice_results 7"
    by (simp add: report_body_def res days)
  also have "notice_results = [] @ (''Keyword Searches'', [] @ (''CRISPR'', []) # [])
                # [(''Author Searches'', []), (''Journal and Topic Searches'', [])]"
    by (simp add: notice_results_def)
  also have "construct_email_body \<dots> 7 =
       html_header @ ''\<newline>''
         @ py_join ''<br/>''
             (sections_loop [] [] 7
                @ [''<h2 style=\"color:red;\">'' @ ''Keyword Searches'' @ ''</h2>\<newline>''
                     @ concat (terms_loop [] [] 7)
                     @ ''<h4>'' @ ''CRISPR'' @ ''</h4>\<newline>''
                     @ ''<p>No results for '' @ [CHR 0x27] @ ''CRISPR'' @ [CHR 0x27] @ '' in the last ''
                     @ str_int 7 @ '' days</p>\<newline>''
                     @ concat (terms_loop [] [] 7)]
                @ sections_loop [] [(''Author Searches'', []), (''Journal and Topic Searches'', [])] 7)
         @ ''\<newline>'' @ html_tail"
    by (rule empty_term_renders_notice [THEN conjunct2, THEN conjunct1])
  finally have "report_body run =
       html_header @ ''\<newline>''
         @ ''<h2 style=\"color:red;\">Keyword Searches</h2>\<newline>''
         @ ''<h4>CRISPR</h4>\<newline>''
         @ ''<p>No results for '' @ [CHR 0x27] @ ''CRISPR'' @ [CHR 0x27]
         @ '' in the last 7 days</p>\<newline>''
         @ ''<br/>''
         @ ''<h2 style=\"color:red;\">Author Searches</h2>\<newline>''
         @ ''<br/>''
         @ ''<h2 style=\"color:red;\">Journal and Topic Searches</h2>\<newline>''
         @ ''\<newline>'' @ html_tail"
    by (simp add: section_heading_def str_int_def str_nat.simps)
  then show ?thesis
    by (simp add: run res days)
qed

text \<open>
  Claim C8, as amended. In the final mapping of a run of \<^verbatim>\<open>main\<close> that returns, the
  keys of a category are its configured terms without their repetitions, in the order
  of first occurrence (for the journal and topic category, the formatted query strings
  of the entries). Hence, where no term of the category is repeated, the Nth key is the
  Nth configured term.
\<close>

theorem term_keys_follow_configured_order:
  "main R cfg today s = (Inr run, s') \<longrightarrow>
     (\<exists>keyword_publications author_publications journal_topic_publications.
        all_results_dict run =
          [(''Keyword Searches'', keyword_publications),
           (''Author Searches'', author_publications),
           (''Journal and Topic Searches'', journal_topic_publications)]
      \<and> map fst keyword_publications = rev (remdups (rev (cfg_search_keywords cfg)))
      \<and> map fst author_publications = rev (remdups (rev (cfg_search_authors cfg)))
      \<and> map fst journal_topic_publications
          = rev (remdups (rev (map (\<lambda>(journal, topic_list).
                  journal @ ''[Journal] AND ('' @ py_join '' OR '' topic_list @ '')'')
                (cfg_journal_topic_dict cfg))))
      \<and> (distinct (cfg_search_keywords cfg) \<longrightarrow>
            map fst keyword_publications = cfg_search_keywords cfg)
      \<and> (distinct (cfg_search_authors cfg) \<longrightarrow>
            map fst author_publications = cfg_search_authors cfg)
      \<and> (distinct (map (\<lambda>(journal, topic_list).
                  journal @ ''[Journal] AND ('' @ py_join '' OR '' topic_list @ '')'')
                (cfg_journal_topic_dict cfg)) \<longrightarrow>
            map fst journal_topic_publications
              = map (\<lambda>(journal, topic_list).
                  journal @ ''[Journal] AND ('' @ py_join '' OR '' topic_list @ '')'')
                (cfg_journal_topic_dict cfg)))"
proof
  assume "main R cfg today s = (Inr run, s')"
  then show "\<exists>keyword_publications author_publications journal_topic_publications.
        all_results_dict run =
          [(''Keyword Searches'', keyword_publications),
           (''Author Searches'', author_publications),
           (''Journal and Topic Searches'', journal_topic_publications)]
      \<and> map fst keyword_publications = rev (remdups (rev (cfg_search_keywords cfg)))
      \<and> map fst author_publications = rev (remdups (rev (cfg_search_authors cfg)))
      \<and> map fst journal_topic_publications
          = rev (remdups (rev (map (\<lambda>(journal, topic_list).
                  journal @ ''[Journal] AND ('' @ py_join '' OR '' topic_list @ '')'')
                (cfg_journal_topic_dict cfg))))
      \<and> (distinct (cfg_search_keywords cfg) \<longrightarrow>
            map fst keyword_publications = cfg_search_keywords cfg)
      \<and> (distinct (cfg_search_authors cfg) \<longrightarrow>
            map fst author_publications = cfg_search_authors cfg)
      \<and> (distinct (map (\<lambda>(journal, topic_list).
                  journal @ ''[Journal] AND ('' @ py_join '' OR '' topic_list @ '')'')
                (cfg_journal_topic_dict cfg)) \<longrightarrow>
            map fst journal_topic_publications
              = map (\<lambda>(journal, topic_list).
                  journal @ ''[Journal] AND ('' @ py_join '' OR '' topic_list @ '')'')
                (cfg_journal_topic_dict cfg))"
  proof (rule main_InrE)
    fix s0 kr s1 ar s2 jr s3 kp s4 ap s5 jp
    assume sk: "search_by_keywords R (cfg_search_keywords cfg) (cfg_pub_days_ago cfg) ''pubmed'' ''Most Recent'' 20 ''edat'' s0 = (Inr kr, s1)"
      and sa: "search_by_authors R (cfg_search_authors cfg) (cfg_pub_days_ago cfg) ''pubmed'' ''Most Recent'' 20 ''edat'' s1 = (Inr ar, s2)"
      and sj: "search_by_journal_and_topic R (cfg_journal_topic_dict cfg) (cfg_pub_days_ago cfg) ''pubmed'' ''Most Recent'' 20 ''edat'' s2 = (Inr jr, s3)"
      and bk: "build_result_dict R kr ''pubmed'' s3 = (Inr kp, s4)"
      and ba: "build_result_dict R ar ''pubmed'' s4 = (Inr ap, s5)"
      and bj: "build_result_dict R jr ''pubmed'' s5 = (Inr jp, s')"
      and all: "all_results_dict run = [(''Keyword Searches'', kp), (''Author Searches'', ap), (''Journal and Topic Searches'', jp)]"
    have k: "map fst kp = rev (remdups (rev (cfg_search_keywords cfg)))"
      by (rule build_result_dict_keys' [OF bk search_keys_distinct_keywords [OF sk]])
    have a: "map fst ap = rev (remdups (rev (cfg_search_authors cfg)))"
      by (rule build_result_dict_keys' [OF ba search_keys_distinct_authors [OF sa]])
    have j: "map fst jp = rev (remdups (rev (map (\<lambda>(journal, topic_list).
                  journal @ ''[Journal] AND ('' @ py_join '' OR '' topic_list @ '')'')
                (cfg_journal_topic_dict cfg))))"
      by (rule build_result_dict_keys' [OF bj search_keys_distinct_journal [OF sj]])
    have k': "distinct (cfg_search_keywords cfg) \<longrightarrow> map fst kp = cfg_search_keywords cfg"
      unfolding k by (simp add: distinct_remdups_id)
    have a': "distinct (cfg_search_authors cfg) \<longrightarrow> map fst ap = cfg_search_authors cfg"
      unfolding a by (simp add: distinct_remdups_id)
    have j': "distinct (map (\<lambda>(journal, topic_list).
                  journal @ ''[Journal] AND ('' @ py_join '' OR '' topic_list @ '')'')
                (cfg_journal_topic_dict cfg)) \<longrightarrow>
            map fst jp = map (\<lambda>(journal, topic_list).
                  journal @ ''[Journal] AND ('' @ py_join '' OR '' topic_list @ '')'')
                (cfg_journal_topic_dict cfg)"
      unfolding j by (simp add: distinct_remdups_id)
    from all k a j k' a' j' show ?thesis by blast
  qed
qed

text \<open>
  Witness for C8: a run with two different terms in every category, whose keys are the
  configured terms in their order; and a run with the keywords a, a, b, whose keys are a, b.
\<close>

theorem term_keys_follow_configured_order_witness:
  "distinct (cfg_search_keywords rich_settings)
   \<and> distinct (cfg_search_authors rich_settings)
   \<and> distinct (map (\<lambda>(journal, topic_list).
                  journal @ ''[Journal] AND ('' @ py_join '' OR '' topic_list @ '')'')
                (cfg_journal_topic_dict rich_settings))
   \<and> map_sum id term_keys (fst (main empty_remote rich_settings ''2017/03/31'' init))
       = Inr [(''Keyword Searches'', [''gene  editing'', ''CRISPR'']),
              (''Author Searches'', [''Smith J'', ''Doe A'']),
              (''Journal and Topic Searches'',
                 [''Nature[Journal] AND (aging OR longevity)'', ''Science[Journal] AND (CRISPR)''])]
   \<and> cfg_search_keywords repeated_settings = [''a'', ''a'', ''b'']
   \<and> map_sum id term_keys (fst (main empty_remote repeated_settings ''2017/03/31'' init))
       = Inr [(''Keyword Searches'', [''a'', ''b'']),
              (''Author Searches'', []),
              (''Journal and Topic Searches'', [])]"
proof -
  have d: "distinct (cfg_search_keywords rich_settings)" "distinct (cfg_search_authors rich_settings)"
    "distinct (map (\<lambda>(journal, topic_list).
                  journal @ ''[Journal] AND ('' @ py_join '' OR '' topic_list @ '')'')
                (cfg_journal_topic_dict rich_settings))"
    by (simp_all add: rich_settings_def)
  from rich_main_run obtain run s' where
    run: "main empty_remote rich_settings ''2017/03/31'' init = (Inr run, s')"
    by blast
  from term_keys_follow_configured_order [THEN mp, OF run] d
  obtain kp ap jp where
    "all_results_dict run =
       [(''Keyword Searches'', kp), (''Author Searches'', ap), (''Journal and Topic Searches'', jp)]"
    "map fst kp = cfg_search_keywords rich_settings"
    "map fst ap = cfg_search_authors rich_settings"
    "map fst jp = map (\<lambda>(journal, topic_list).
                  journal @ ''[Journal] AND ('' @ py_join '' OR '' topic_list @ '')'')
                (cfg_journal_topic_dict rich_settings)"
    by blast
  then have "term_keys run
       = [(''Keyword Searches'', [''gene  editing'', ''CRISPR'']),
          (''Author Searches'', [''Smith J'', ''Doe A'']),
          (''Journal and Topic Searches'',
             [''Nature[Journal] AND (aging OR longevity)'', ''Science[Journal] AND (CRISPR)''])]"
    by (simp add: term_keys_def rich_settings_def)
  then have rich: "map_sum id term_keys (fst (main empty_remote rich_settings ''2017/03/31'' init))
       = Inr [(''Keyword Searches'', [''gene  editing'', ''CRISPR'']),
              (''Author Searches'', [''Smith J'', ''Doe A'']),
              (''Journal and Topic Searches'',
                 [''Nature[Journal] AND (aging OR longevity)'', ''Science[Journal] AND (CRISPR)''])]"
    by (simp add: run)
  have r: "cfg_search_keywords repeated_settings = [''a'', ''a'', ''b'']"
    "cfg_search_authors repeated_settings = []" "cfg_journal_topic_dict repeated_settings = []"
    by (simp_all add: repeated_settings_def demo_settings_def)
  from repeated_main_run obtain run2 s2 where
    run2: "main empty_remote repeated_settings ''2017/03/31'' init = (Inr run2, s2)"
    by blast
  from term_keys_follow_configured_order [THEN mp, OF run2]
  obtain kp2 ap2 jp2 where
    "all_results_dict run2 =
       [(''Keyword Searches'', kp2), (''Author Searches'', ap2), (''Journal and Topic Searches'', jp2)]"
    "map fst kp2 = rev (remdups (rev (cfg_search_keywords repeated_settings)))"
    "map fst ap2 = rev (remdups (rev (cfg_search_authors repeated_settings)))"
    "map fst jp2 = rev (remdups (rev (map (\<lambda>(journal, topic_list).
                  journal @ ''[Journal] AND ('' @ py_join '' OR '' topic_list @ '')'')
                (cfg_journal_topic_dict repeated_settings))))"
    by blast
  then have "term_keys run2
       = [(''Keyword Searches'', [''a'', ''b'']),
          (''Author Searches'', []),
          (''Journal and Topic Searches'', [])]"
    by (simp add: term_keys_def r)
  then have rep: "map_sum id term_keys (fst (main empty_remote repeated_settings ''2017/03/31'' init))
       = Inr [(''Keyword Searches'', [''a'', ''b'']),
              (''Author Searches'', []),
              (''Journal and Topic Searches'', [])]"
    by (simp add: run2)
  show ?thesis
    using d rich r(1) rep by blast
qed

text \<open>
  Counterexample for C8 as stated: with the keywords a, a, b the mapping has the two keys
  a and b, so its second key is b where the second configured keyword is a.
\<close>

theorem repeated_keyword_counterexample:
  "cfg_search_keywords repeated_settings = [''a'', ''a'', ''b'']
   \<and> map_sum id all_results_dict (fst (main empty_remote repeated_settings ''2017/03/31'' init))
       = Inr [(''Keyword Searches'', [(''a'', []), (''b'', [])]),
              (''Author Searches'', []),
              (''Journal and Topic Searches'', [])]"
  by (simp add: run_defs empty_remote_def demo_remote_def repeated_settings_def demo_settings_def init_def)

text \<open>
  Claim C9. A run of \<^verbatim>\<open>search_by_keywords\<close> or \<^verbatim>\<open>search_by_authors\<close> that returns
  has sent one request per occurrence of a term, in order; the keys of its result are
  the terms, each once; and a term is bound to the identifiers that the search of its
  last occurrence returned.
\<close>

theorem duplicate_terms_last_write_wins:
  "(search_by_keywords R keywords reldate database sort_type retmax datetype s = (Inr results, s') \<longrightarrow>
      (\<exists>ids_lists. length ids_lists = length keywords
         \<and> trace s' = trace s @ map (\<lambda>(term, ids).
               EsearchCall (search_request (py_join ''+'' (py_split term) @ ''[Title/Abstract]'')
                              reldate database sort_type retmax datetype) (Inr ids))
             (zip keywords ids_lists)
         \<and> distinct (map fst results)
         \<and> set (map fst results) = set keywords
         \<and> (\<forall>before term after. keywords = before @ term # after \<and> term \<notin> set after \<longrightarrow>
               map_of results term = Some (ids_lists ! length before))))
   \<and> (search_by_authors R authors reldate database sort_type retmax datetype s = (Inr results, s') \<longrightarrow>
      (\<exists>ids_lists. length ids_lists = length authors
         \<and> trace s' = trace s @ map (\<lambda>(name, ids).
               EsearchCall (search_request (name @ ''[Author]'')
                              reldate database sort_type retmax datetype) (Inr ids))
             (zip authors ids_lists)
         \<and> distinct (map fst results)
         \<and> set (map fst results) = set authors
         \<and> (\<forall>before name after. authors = before @ name # after \<and> name \<notin> set after \<longrightarrow>
               map_of results name = Some (ids_lists ! length before))))"
proof (intro conjI impI)
  assume "search_by_keywords R keywords reldate database sort_type retmax datetype s = (Inr results, s')"
  from search_by_keywords_Inr [OF this]
  obtain ids_lists where len: "length ids_lists = length keywords"
    and tr: "trace s' = trace s @ map (\<lambda>(term, ids).
               EsearchCall (search_request (py_join ''+'' (py_split term) @ ''[Title/Abstract]'')
                              reldate database sort_type retmax datetype) (Inr ids))
             (zip keywords ids_lists)"
    and res: "results = od_of (zip keywords ids_lists) []"
    by blast
  have d: "distinct (map fst results)" unfolding res by (rule od_of_distinct)
  have k: "set (map fst results) = set keywords"
    unfolding res od_of_keys_empty using len by simp
  have l: "\<forall>before term after. keywords = before @ term # after \<and> term \<notin> set after \<longrightarrow>
               map_of results term = Some (ids_lists ! length before)"
    unfolding res using od_of_last_wins [OF len] by blast
  from len tr d k l
  show "\<exists>ids_lists. length ids_lists = length keywords
         \<and> trace s' = trace s @ map (\<lambda>(term, ids).
               EsearchCall (search_request (py_join ''+'' (py_split term) @ ''[Title/Abstract]'')
                              reldate database sort_type retmax datetype) (Inr ids))
             (zip keywords ids_lists)
         \<and> distinct (map fst results)
         \<and> set (map fst results) = set keywords
         \<and> (\<forall>before term after. keywords = before @ term # after \<and> term \<notin> set after \<longrightarrow>
               map_of results term = Some (ids_lists ! length before))"
    by blast
next
  assume "search_by_authors R authors reldate database sort_type retmax datetype s = (Inr results, s')"
  from search_by_authors_Inr [OF this]
  obtain ids_lists where len: "length ids_lists = length authors"
    and tr: "trace s' = trace s @ map (\<lambda>(name, ids).
               EsearchCall (search_request (name @ ''[Author]'')
                              reldate database sort_type retmax datetype) (Inr ids))
             (zip authors ids_lists)"
    and res: "results = od_of (zip authors ids_lists) []"
    by blast
  have d: "distinct (map fst results)" unfolding res by (rule od_of_distinct)
  have k: "set (map fst results) = set authors"
    unfolding res od_of_keys_empty using len by simp
  have l: "\<forall>before name after. authors = before @ name # after \<and> name \<notin> set after \<longrightarrow>
               map_of results name = Some (ids_lists ! length before)"
    unfolding res using od_of_last_wins [OF len] by blast
  from len tr d k l
  show "\<exists>ids_lists. length ids_lists = length authors
         \<and> trace s' = trace s @ map (\<lambda>(name, ids).
               EsearchCall (search_request (name @ ''[Author]'')
                              reldate database sort_type retmax datetype) (Inr ids))
             (zip authors ids_lists)
         \<and> distinct (map fst results)
         \<and> set (map fst results) = set authors
         \<and> (\<forall>before name after. authors = before @ name # after \<and> name \<notin> set after \<longrightarrow>
               map_of results name = Some (ids_lists ! length before))"
    by blast
qed

text \<open>
  Witness for C9: the term a twice, then the term b; a is bound to the answer of the
  second search.
\<close>

theorem duplicate_terms_last_write_wins_witness:
  "search_by_keywords demo_remote [''a'', ''a'', ''b''] 7 ''pubmed'' ''Most Recent'' 20 ''edat'' init
     = (Inr [(''a'', [''333'', ''444'']), (''b'', [''555'', ''666''])],
        repeated_search ''a[Title/Abstract]'' ''b[Title/Abstract]'')
   \<and> search_by_authors demo_remote [''a'', ''a'', ''b''] 7 ''pubmed'' ''Most Recent'' 20 ''edat'' init
     = (Inr [(''a'', [''333'', ''444'']), (''b'', [''555'', ''666''])],
        repeated_search ''a[Author]'' ''b[Author]'')
   \<and> [''a'', ''a'', ''b''] = [''a''] @ ''a'' # [''b''] \<and> ''a'' \<notin> set [''b'']
   \<and> distinct (map fst [(''a'', [''333'', ''444'']), (''b'', [''555'', ''666''])])
   \<and> map_of [(''a'', [''333'', ''444'']), (''b'', [''555'', ''666''])] ''a'' = Some [''333'', ''444'']"
proof -
  from duplicate_terms_last_write_wins [THEN conjunct1, THEN mp, OF repeated_keywords_run]
  have k: "distinct (map fst [(''a'', [''333'', ''444'']), (''b'', [''555'', ''666''])])"
    by blast
  from duplicate_terms_last_write_wins [THEN conjunct2, THEN mp, OF repeated_authors_run]
  have a: "distinct (map fst [(''a'', [''333'', ''444'']), (''b'', [''555'', ''666''])])"
    by blast
  show ?thesis
    using repeated_keywords_run repeated_authors_run k a by simp
qed

text \<open>
  Claim C10. For every aggregated structure, the hit count is the number of entries in
  the layout of the report, and the body is the rendering of this layout, an entry
  being the linked title, the journal line and the authors line of one publication.
  A run of \<^verbatim>\<open>main\<close> that returns puts the hit count of its structure into the subject
  and the body of the same structure into the message.
\<close>

theorem subject_count_matches_rendered_entries:
  "count_total_hits all = int (length (filter is_entry (concat (map section_layout all))))
   \<and> construct_email_body all days
       = html_header @ ''\<newline>''
           @ py_join ''<br/>'' (map (\<lambda>sec. concat (map (render_item days) (section_layout sec))) all)
           @ ''\<newline>'' @ html_tail
   \<and> (main R cfg today s = (Inr run, s') \<longrightarrow>
        msg_subject (message run)
          = ''pub scraper report - '' @ today @ '' (''
              @ str_int (count_total_hits (all_results_dict run)) @ '' hits)''
      \<and> msg_body (message run) = construct_email_body (all_results_dict run) (cfg_pub_days_ago cfg))"
proof (intro conjI impI)
  show "count_total_hits all = int (length (filter is_entry (concat (map section_layout all))))"
    unfolding count_total_hits_def hits_groups_sum entries_layout by simp
next
  show "construct_email_body all days
       = html_header @ ''\<newline>''
           @ py_join ''<br/>'' (map (\<lambda>sec. concat (map (render_item days) (section_layout sec))) all)
           @ ''\<newline>'' @ html_tail"
    by (simp add: construct_email_body_def sections_loop_layout)
next
  assume "main R cfg today s = (Inr run, s')"
  then show "msg_subject (message run)
          = ''pub scraper report - '' @ today @ '' (''
              @ str_int (count_total_hits (all_results_dict run)) @ '' hits)''"
    by (rule main_InrE) simp
next
  assume "main R cfg today s = (Inr run, s')"
  then show "msg_body (message run) = construct_email_body (all_results_dict run) (cfg_pub_days_ago cfg)"
    by (rule main_InrE)
qed

text \<open>
  Witness for C10: a run with one hit.
\<close>

theorem subject_count_matches_rendered_entries_witness:
  "main demo_remote demo_settings ''2017/03/31'' init = (Inr demo_run, demo_final_state)
   \<and> msg_subject (message demo_run) = ''pub scraper report - 2017/03/31 (1 hits)''
   \<and> filter is_entry (concat (map section_layout (all_results_dict demo_run)))
       = [Entry (demo_publication ''111'')]
   \<and> count_total_hits (all_results_dict demo_run) = 1"
proof -
  have "count_total_hits (all_results_dict demo_run)
          = int (length (filter is_entry (concat (map section_layout (all_results_dict demo_run)))))"
    by (rule subject_count_matches_rendered_entries [THEN conjunct1])
  moreover have "filter is_entry (concat (map section_layout (all_results_dict demo_run)))
       = [Entry (demo_publication ''111'')]"
    by (simp add: demo_run_def demo_results_def section_layout_def term_layout_def)
  moreover have "msg_subject (message demo_run)
          = ''pub scraper report - '' @ ''2017/03/31'' @ '' (''
              @ str_int (count_total_hits (all_results_dict demo_run)) @ '' hits)''"
    by (rule subject_count_matches_rendered_entries
          [THEN conjunct2, THEN conjunct2, THEN mp, THEN conjunct1, OF demo_main_result])
  ultimately show ?thesis
    using demo_main_result by (simp add: demo_run_def)
qed

end
